theory Spec2Isabelle
  imports Complex_Main
begin

section \<open>Exceptions and the completion of a call\<close>

text \<open>
  A JavaScript call either returns or throws. A throw keeps every effect made before it,
  so both cases carry the state reached. \<open>TypeError\<close> is what reading a property of
  \<open>null\<close> throws; \<open>DOMException\<close> stands for the exceptions of the platform (a rejected
  clipboard write, a refused \<open>execCommand\<close>, a selector text that does not parse).
\<close>

datatype error = TypeError | DOMException string

datatype ('r, 's) outcome = Returned 'r 's | Thrown error 's

abbreviation Done :: "'s \<Rightarrow> (unit, 's) outcome" where
  "Done s \<equiv> Returned () s"

definition and_then :: "(unit, 's) outcome \<Rightarrow> ('s \<Rightarrow> ('r, 's) outcome) \<Rightarrow> ('r, 's) outcome" where
  "and_then r f = (case r of Returned u s \<Rightarrow> f s | Thrown e s \<Rightarrow> Thrown e s)"

section \<open>The document\<close>

text \<open>
  The document is its elements in document order (the order \<open>querySelector\<close>,
  \<open>querySelectorAll\<close> and \<open>getElementById\<close> search in), each with its nesting depth: the
  descendants of an element are the elements that follow it for as long as they are
  deeper. An element is known by its position in that list.

  \<open>ident\<close> is the \<open>id\<close> attribute (empty when there is none), \<open>classes\<close> the tokens of
  the \<open>class\<close> attribute as \<open>classList\<close> holds them, \<open>attrs\<close> every other attribute,
  \<open>style\<close> the inline style properties as the script last assigned them,
  \<open>control_value\<close> the \<open>value\<close> property of a form control, and \<open>scrollHeight\<close> the
  height of the content as the layout reports it. Tag names are written in lower case.
\<close>

record element =
  tag :: string
  ident :: string
  classes :: "string list"
  attrs :: "string \<rightharpoonup> string"
  style :: "string \<rightharpoonup> string"
  textContent :: string
  control_value :: string
  depth :: nat
  scrollHeight :: nat

definition createElement :: "string \<Rightarrow> element" where
  "createElement t =
     \<lparr>tag = t, ident = [], classes = [], attrs = Map.empty, style = Map.empty,
      textContent = [], control_value = [], depth = 0, scrollHeight = 0\<rparr>"

definition classList_contains :: "string \<Rightarrow> element \<Rightarrow> bool" where
  "classList_contains c e = (c \<in> set (classes e))"

definition classList_add :: "string \<Rightarrow> element \<Rightarrow> element" where
  "classList_add c e = (if c \<in> set (classes e) then e else e\<lparr>classes := classes e @ [c]\<rparr>)"

definition classList_remove :: "string \<Rightarrow> element \<Rightarrow> element" where
  "classList_remove c e = e\<lparr>classes := removeAll c (classes e)\<rparr>"

definition set_className :: "string list \<Rightarrow> element \<Rightarrow> element" where
  \<comment> \<open>\<open>el.className = '...'\<close>, the assigned text given as its tokens\<close>
  "set_className cs e = e\<lparr>classes := cs\<rparr>"

definition setAttribute :: "string \<Rightarrow> string \<Rightarrow> element \<Rightarrow> element" where
  "setAttribute k v e = e\<lparr>attrs := (attrs e)(k \<mapsto> v)\<rparr>"

definition removeAttribute :: "string \<Rightarrow> element \<Rightarrow> element" where
  "removeAttribute k e = e\<lparr>attrs := (attrs e)(k := None)\<rparr>"

definition set_style :: "string \<Rightarrow> string \<Rightarrow> element \<Rightarrow> element" where
  \<comment> \<open>\<open>el.style.k = v\<close>; assigning the empty string removes the property\<close>
  "set_style k v e = e\<lparr>style := (style e)(k := (if v = [] then None else Some v))\<rparr>"

primrec first_index :: "('a \<Rightarrow> bool) \<Rightarrow> 'a list \<Rightarrow> nat option" where
  "first_index P [] = None"
| "first_index P (x # xs) = (if P x then Some 0 else map_option Suc (first_index P xs))"

definition update_at :: "nat \<Rightarrow> (element \<Rightarrow> element) \<Rightarrow> element list \<Rightarrow> element list" where
  "update_at i f d = (if i < length d then d[i := f (d ! i)] else d)"

definition forEach_matching ::
  "(element \<Rightarrow> bool) \<Rightarrow> (element \<Rightarrow> element) \<Rightarrow> element list \<Rightarrow> element list" where
  \<comment> \<open>\<open>document.querySelectorAll(sel).forEach(el => ...)\<close> for a callback that changes \<open>el\<close> only\<close>
  "forEach_matching P f d = map (\<lambda>e. if P e then f e else e) d"

definition getElementById :: "string \<Rightarrow> element list \<Rightarrow> nat option" where
  "getElementById name d = (if name = [] then None else first_index (\<lambda>e. ident e = name) d)"

definition document_body :: "element list \<Rightarrow> nat option" where
  "document_body d = first_index (\<lambda>e. tag e = ''body'') d"

definition document_head :: "element list \<Rightarrow> nat option" where
  "document_head d = first_index (\<lambda>e. tag e = ''head'') d"

definition descendants :: "nat \<Rightarrow> element list \<Rightarrow> element list" where
  "descendants i d = takeWhile (\<lambda>e. depth (d ! i) < depth e) (drop (Suc i) d)"

definition element_querySelector :: "(element \<Rightarrow> bool) \<Rightarrow> nat \<Rightarrow> element list \<Rightarrow> nat option" where
  \<comment> \<open>\<open>el.querySelector(sel)\<close>: the first descendant of \<open>el\<close> that matches\<close>
  "element_querySelector P i d = map_option (\<lambda>k. Suc i + k) (first_index P (descendants i d))"

definition remove_element :: "nat \<Rightarrow> element list \<Rightarrow> element list" where
  \<comment> \<open>\<open>el.remove()\<close>: the element leaves the document with its descendants\<close>
  "remove_element i d = take i d @ drop (Suc i + length (descendants i d)) d"

definition appendChild :: "nat \<Rightarrow> element \<Rightarrow> element list \<Rightarrow> element list" where
  \<comment> \<open>\<open>parent.appendChild(el)\<close> for a new element without children: last child of \<open>parent\<close>\<close>
  "appendChild i e d =
     (let k = Suc i + length (descendants i d)
      in take k d @ [e\<lparr>depth := Suc (depth (d ! i))\<rparr>] @ drop k d)"

section \<open>The browser and the page\<close>

text \<open>
  \<open>browser\<close> holds what the script reads from \<open>window\<close> and \<open>navigator\<close> and cannot
  change. \<open>page\<close> holds what it changes: the document, local storage, the fragment of the
  URL (the text after \<open>#\<close>), the fields of the one \<open>GreenMaxWebsite\<close> instance, the timers
  that are pending and the errors written with \<open>console.error\<close>. \<open>deviceInfo\<close> and
  \<open>screenInfo\<close> are \<open>None\<close> while they hold the empty object the constructor assigns;
  every property read from the empty object is \<open>undefined\<close>. The \<open>connection\<close> of a
  snapshot is a reference to the browser's connection object (here: whether there is
  one), so its \<open>saveData\<close> is read from the browser at the time of the read.
  \<open>other_selector\<close> is the browser's reading of a selector text that the model does not
  parse itself (see \<open>querySelector_data_tab\<close>). The user agent and the platform are
  JavaScript strings, that is lists of UTF-16 code units; \<open>unicode_lowercase s i\<close> is what
  the Unicode tables of the browser make of the code unit at position \<open>i\<close> of \<open>s\<close> when it
  is outside ASCII (see \<open>toLowerCase\<close>). Registering an event listener changes
  nothing of the page; each listener of the script is a function of this theory that the
  environment may call at any time.

  Local storage is taken to be available and within its quota, so \<open>getItem\<close> and
  \<open>setItem\<close> do not throw.
\<close>

record net_connection =
  saveData :: bool

record browser =
  userAgent :: "int list"
  platform :: "int list"
  unicode_lowercase :: "int list \<Rightarrow> nat \<Rightarrow> int list"
  innerWidth :: int
  innerHeight :: int
  has_matchMedia :: bool
  prefers_dark :: bool
  prefers_reduced_motion :: bool
  hover_hover :: bool
  ontouchstart_in_window :: bool
  maxTouchPoints :: int
  vibrate_in_navigator :: bool
  navigator_connection :: "net_connection option"
  devicePixelRatio :: rat
  other_selector :: "string \<Rightarrow> element list \<Rightarrow> error + nat option"
  navigator_clipboard :: bool
  isSecureContext :: bool
  writeText :: "string \<Rightarrow> error option"
  execCommand_copy :: "error + bool"

record device_info =
  isMobile :: bool
  isTablet :: bool
  isDesktop :: bool
  isIOS :: bool
  isAndroid :: bool
  isMac :: bool
  isWindows :: bool
  hasTouch :: bool
  hasHover :: bool
  canVibrate :: bool
  isChrome :: bool
  isFirefox :: bool
  isSafari :: bool
  connection :: bool
  pixelRatio :: rat

record screen_info =
  width :: int
  height :: int
  isXSmall :: bool
  isSmall :: bool
  isMedium :: bool
  isLarge :: bool
  isXLarge :: bool
  isPortrait :: bool
  isLandscape :: bool

datatype timer = ClearTransition

record page =
  doc :: "element list"
  localStorage :: "string \<rightharpoonup> string"
  fragment :: string
  currentTheme :: string
  currentTab :: string
  deviceInfo :: "device_info option"
  screenInfo :: "screen_info option"
  timers :: "(nat \<times> timer) list"
  console_errors :: "error list"

definition truthy :: "string option \<Rightarrow> bool" where
  \<comment> \<open>\<open>if (s)\<close> for a string or \<open>null\<close>: \<open>null\<close> and the empty string are falsy\<close>
  "truthy s = (case s of None \<Rightarrow> False | Some v \<Rightarrow> v \<noteq> [])"

section \<open>Theme\<close>

definition applyTheme :: "page \<Rightarrow> (unit, page) outcome" where
  "applyTheme p =
     (let themeIcon = getElementById ''themeIcon'' (doc p) in
      case document_body (doc p) of
        None \<Rightarrow> Thrown TypeError p
      | Some body \<Rightarrow>
          if currentTheme p = ''dark'' then
            (let p1 = p\<lparr>doc := update_at body (setAttribute ''data-theme'' ''dark'') (doc p)\<rparr> in
             case themeIcon of
               None \<Rightarrow> Thrown TypeError p1
             | Some icon \<Rightarrow>
                 Done (p1\<lparr>doc := update_at icon (set_className [''fas'', ''fa-sun'']) (doc p1),
                          localStorage := (localStorage p1)(''greenmax-theme'' \<mapsto> currentTheme p1)\<rparr>))
          else
            (let p1 = p\<lparr>doc := update_at body (removeAttribute ''data-theme'') (doc p)\<rparr> in
             case themeIcon of
               None \<Rightarrow> Thrown TypeError p1
             | Some icon \<Rightarrow>
                 Done (p1\<lparr>doc := update_at icon (set_className [''fas'', ''fa-moon'']) (doc p1),
                          localStorage := (localStorage p1)(''greenmax-theme'' \<mapsto> currentTheme p1)\<rparr>)))"

definition loadTheme :: "browser \<Rightarrow> page \<Rightarrow> (unit, page) outcome" where
  "loadTheme b p =
     (let savedTheme = localStorage p ''greenmax-theme'' in
      applyTheme
        (if truthy savedTheme then p\<lparr>currentTheme := the savedTheme\<rparr>
         else if has_matchMedia b \<and> prefers_dark b then p\<lparr>currentTheme := ''dark''\<rparr>
         else p))"

definition toggleTheme :: "page \<Rightarrow> (unit, page) outcome" where
  "toggleTheme p =
     and_then
       (applyTheme (p\<lparr>currentTheme := (if currentTheme p = ''light'' then ''dark'' else ''light'')\<rparr>))
       (\<lambda>p1. case document_body (doc p1) of
                None \<Rightarrow> Thrown TypeError p1
              | Some body \<Rightarrow>
                  Done (p1\<lparr>doc := update_at body
                                    (set_style ''transition'' ''background-color 0.3s ease, color 0.3s ease'')
                                    (doc p1),
                           timers := timers p1 @ [(300, ClearTransition)]\<rparr>))"

definition run_timer :: "timer \<Rightarrow> page \<Rightarrow> (unit, page) outcome" where
  \<comment> \<open>the callback of \<open>setTimeout\<close> in \<open>toggleTheme\<close>\<close>
  "run_timer t p =
     (case t of ClearTransition \<Rightarrow>
        (case document_body (doc p) of
           None \<Rightarrow> Thrown TypeError p
         | Some body \<Rightarrow> Done (p\<lparr>doc := update_at body (set_style ''transition'' []) (doc p)\<rparr>)))"

definition on_color_scheme_change :: "bool \<Rightarrow> page \<Rightarrow> (unit, page) outcome" where
  \<comment> \<open>the \<open>change\<close> listener of the \<open>prefers-color-scheme\<close> query; the flag is \<open>e.matches\<close>\<close>
  "on_color_scheme_change matches p =
     (let savedTheme = localStorage p ''greenmax-theme'' in
      if truthy savedTheme then Done p
      else applyTheme (p\<lparr>currentTheme := (if matches then ''dark'' else ''light'')\<rparr>))"

section \<open>Tabs\<close>

text \<open>
  \<open>switchTab\<close> builds the selector text \<open>[data-tab="NAME"]\<close> by interpolation. When the
  name holds no double quote, no backslash and no line break, the text is the attribute
  test \<open>data-tab = NAME\<close>. Any other name changes the selector text itself (a quote ends
  the string, a backslash starts an escape); what the browser makes of that text is
  \<open>other_selector\<close>. \<open>scrollIntoView\<close> moves the viewport only, which the page of the
  model does not hold. \<open>history.replaceState\<close> is given \<open>#NAME\<close>; the fragment is kept as
  the name, without the percent-encoding a URL applies to some characters.
\<close>

definition css_string_plain :: "string \<Rightarrow> bool" where
  "css_string_plain s =
     list_all (\<lambda>c. c \<notin> set [CHR 0x22, CHR 0x5C, CHR 0x0A, CHR 0x0C, CHR 0x0D]) s"

definition data_tab_selector :: "string \<Rightarrow> string" where
  "data_tab_selector name = ''[data-tab='' @ [CHR 0x22] @ name @ [CHR 0x22] @ '']''"

definition querySelector_data_tab :: "browser \<Rightarrow> string \<Rightarrow> element list \<Rightarrow> error + nat option" where
  "querySelector_data_tab b name d =
     (if css_string_plain name then Inr (first_index (\<lambda>e. attrs e ''data-tab'' = Some name) d)
      else other_selector b (data_tab_selector name) d)"

definition switchTab :: "browser \<Rightarrow> string \<Rightarrow> page \<Rightarrow> (unit, page) outcome" where
  "switchTab b tabName p =
     (let d1 = forEach_matching (classList_contains ''tab-button'') (classList_remove ''active'') (doc p);
          d2 = forEach_matching (classList_contains ''tab-panel'') (classList_remove ''active'') d1;
          p2 = p\<lparr>doc := d2\<rparr>
      in case querySelector_data_tab b tabName d2 of
           Inl e \<Rightarrow> Thrown e p2
         | Inr activeTabButton \<Rightarrow>
             (case (activeTabButton, getElementById tabName d2) of
                (Some button, Some panel) \<Rightarrow>
                  Done (p2\<lparr>doc := update_at panel (classList_add ''active'')
                                     (update_at button (classList_add ''active'') d2),
                           currentTab := tabName,
                           fragment := tabName\<rparr>)
              | _ \<Rightarrow> Done p2))"

definition validTabs :: "string list" where
  "validTabs = [''general'', ''faq'']"

definition initializeActiveTab :: "browser \<Rightarrow> page \<Rightarrow> (unit, page) outcome" where
  "initializeActiveTab b p =
     (let hash = fragment p in
      if hash \<noteq> [] \<and> hash \<in> set validTabs then switchTab b hash p
      else switchTab b ''general'' p)"

definition on_hashchange :: "browser \<Rightarrow> page \<Rightarrow> (unit, page) outcome" where
  "on_hashchange b p =
     (let hash = fragment p in
      if hash \<noteq> [] \<and> hash \<in> set validTabs then switchTab b hash p else Done p)"

section \<open>FAQ accordion\<close>

definition digit :: "nat \<Rightarrow> char" where
  "digit n = ''0123456789'' ! (n mod 10)"

fun show_nat :: "nat \<Rightarrow> string" where
  \<comment> \<open>a number as JavaScript writes it when it is joined to a string\<close>
  "show_nat n = (if n < 10 then [digit n] else show_nat (n div 10) @ [digit n])"

declare show_nat.simps [simp del]

definition is_h4 :: "element \<Rightarrow> bool" where
  "is_h4 e = (tag e = ''h4'')"

definition faq_items :: "element list \<Rightarrow> nat list" where
  "faq_items d = filter (\<lambda>i. classList_contains ''faq-item'' (d ! i)) [0..<length d]"

definition setup_question :: "element \<Rightarrow> element" where
  "setup_question =
     setAttribute ''aria-expanded'' ''false'' \<circ> setAttribute ''role'' ''button'' \<circ>
     setAttribute ''tabindex'' ''0''"

definition setupFAQInteractivity :: "page \<Rightarrow> (unit, page) outcome" where
  "setupFAQInteractivity p =
     Done (p\<lparr>doc := fold (\<lambda>item d. case element_querySelector is_h4 item d of
                                       None \<Rightarrow> d
                                     | Some question \<Rightarrow> update_at question setup_question d)
                          (faq_items (doc p)) (doc p)\<rparr>)"

definition toggleFAQItem :: "nat \<Rightarrow> page \<Rightarrow> (unit, page) outcome" where
  \<comment> \<open>\<open>item\<close> is an element of the document; a position past its end names none\<close>
  "toggleFAQItem item p =
     (let d = doc p in
      if length d \<le> item then Done p
      else
        (let isActive = classList_contains ''active'' (d ! item);
             question = element_querySelector is_h4 item d;
             answer = element_querySelector (classList_contains ''faq-answer'') item d
         in if isActive then
              (let d1 = update_at item (classList_remove ''active'') d;
                   d2 = (case question of None \<Rightarrow> d1
                         | Some q \<Rightarrow> update_at q (setAttribute ''aria-expanded'' ''false'') d1);
                   d3 = (case answer of None \<Rightarrow> d2
                         | Some a \<Rightarrow> update_at a (set_style ''maxHeight'' ''0'') d2)
               in Done (p\<lparr>doc := d3\<rparr>))
            else
              (let d1 = update_at item (classList_add ''active'') d;
                   d2 = (case question of None \<Rightarrow> d1
                         | Some q \<Rightarrow> update_at q (setAttribute ''aria-expanded'' ''true'') d1);
                   d3 = (case answer of None \<Rightarrow> d2
                         | Some a \<Rightarrow>
                             update_at a (set_style ''maxHeight'' (show_nat (scrollHeight (d2 ! a)) @ ''px'')) d2)
               in Done (p\<lparr>doc := d3\<rparr>))))"

section \<open>Device and screen detection\<close>

text \<open>
  \<open>detectDevice\<close> lower-cases the user agent and the platform and tests them with regular
  expressions that carry the flag \<open>i\<close>.

  \<open>toLowerCase\<close> maps the letters A to Z to a to z and leaves every other ASCII code unit
  as it is. What it makes of a code unit outside ASCII is given by the Unicode tables of
  the browser, \<open>unicode_lowercase\<close>; these can yield ASCII letters (the Kelvin sign U+212A
  becomes \<open>k\<close>, the dotted capital I U+0130 becomes \<open>i\<close> followed by U+0307) and can depend
  on the neighbours of the code unit.

  The expressions are alternatives of literal words of small letters and spaces. With the
  flag \<open>i\<close> (and without the flag \<open>u\<close>) a small letter of a word matches itself and its
  capital and no code unit outside ASCII, and a space matches a space. So a test is: one
  of the words occurs in the text, letters compared without regard to case. The one
  exception is \<open>android(?!.*mobile)\<close>: an occurrence of \<open>android\<close> after which \<open>mobile\<close>
  does not occur before the next line terminator.
\<close>

definition units :: "string \<Rightarrow> int list" where
  \<comment> \<open>the code units of an ASCII text\<close>
  "units s = map of_char s"

fun lower_from :: "browser \<Rightarrow> int list \<Rightarrow> nat \<Rightarrow> int list \<Rightarrow> int list" where
  \<comment> \<open>the lower-cased code units of \<open>s\<close> from position \<open>i\<close> on, the last argument being what
      \<open>s\<close> holds from there\<close>
  "lower_from b s i [] = []"
| "lower_from b s i (c # cs) =
     (if 65 \<le> c \<and> c \<le> 90 then [c + 32]
      else if c < 128 then [c]
      else unicode_lowercase b s i) @ lower_from b s (Suc i) cs"

definition toLowerCase :: "browser \<Rightarrow> int list \<Rightarrow> int list" where
  "toLowerCase b s = lower_from b s 0 s"

definition unit_matches :: "int \<Rightarrow> int \<Rightarrow> bool" where
  \<comment> \<open>the code unit \<open>w\<close> of a word matches the code unit \<open>c\<close> of the text, under the flag \<open>i\<close>\<close>
  "unit_matches w c = (c = w \<or> (97 \<le> w \<and> w \<le> 122 \<and> c + 32 = w))"

fun starts_with :: "int list \<Rightarrow> int list \<Rightarrow> bool" where
  "starts_with [] s = True"
| "starts_with (x # xs) [] = False"
| "starts_with (x # xs) (y # ys) = (unit_matches x y \<and> starts_with xs ys)"

fun occurs_in :: "int list \<Rightarrow> int list \<Rightarrow> bool" where
  "occurs_in w [] = (w = [])"
| "occurs_in w (c # cs) = (starts_with w (c # cs) \<or> occurs_in w cs)"

definition regex_test :: "string list \<Rightarrow> int list \<Rightarrow> bool" where
  \<comment> \<open>\<open>/word|word|.../i.test(s)\<close>\<close>
  "regex_test ws s = list_ex (\<lambda>w. occurs_in (units w) s) ws"

definition line_terminator :: "int \<Rightarrow> bool" where
  \<comment> \<open>the code units that \<open>.\<close> does not match\<close>
  "line_terminator c = (c \<in> set [0x0A, 0x0D, 0x2028, 0x2029])"

fun occurs_without :: "int list \<Rightarrow> int list \<Rightarrow> int list \<Rightarrow> bool" where
  \<comment> \<open>\<open>/w(?!.*v)/i.test(s)\<close>: \<open>w\<close> occurs at a place after which \<open>v\<close> does not occur before
      the next line terminator\<close>
  "occurs_without w v [] = False"
| "occurs_without w v (c # cs) =
     ((starts_with w (c # cs) \<and>
       \<not> occurs_in v (takeWhile (\<lambda>x. \<not> line_terminator x) (drop (length w) (c # cs)))) \<or>
      occurs_without w v cs)"

definition android_without_mobile :: "int list \<Rightarrow> bool" where
  \<comment> \<open>\<open>/android(?!.*mobile)/i.test(s)\<close>\<close>
  "android_without_mobile s = occurs_without (units ''android'') (units ''mobile'') s"

definition mobile_pattern :: "int list \<Rightarrow> bool" where
  \<comment> \<open>\<open>/android|webos|iphone|ipad|ipod|blackberry|iemobile|opera mini/i.test(userAgent)\<close>\<close>
  "mobile_pattern ua =
     regex_test [''android'', ''webos'', ''iphone'', ''ipad'', ''ipod'', ''blackberry'',
                 ''iemobile'', ''opera mini''] ua"

definition tablet_pattern :: "int list \<Rightarrow> bool" where
  \<comment> \<open>\<open>/ipad|android(?!.*mobile)|tablet/i.test(userAgent)\<close>\<close>
  "tablet_pattern ua =
     (regex_test [''ipad''] ua \<or> android_without_mobile ua \<or> regex_test [''tablet''] ua)"

definition detectDevice :: "browser \<Rightarrow> page \<Rightarrow> (unit, page) outcome" where
  "detectDevice b p =
     (let ua = toLowerCase b (userAgent b);
          pf = toLowerCase b (platform b)
      in if \<not> has_matchMedia b then Thrown TypeError p
         else
           (let info =
                  \<lparr>isMobile = mobile_pattern ua,
                   isTablet = tablet_pattern ua,
                   isDesktop = (\<not> regex_test [''android'', ''webos'', ''iphone'', ''ipad'', ''ipod'',
                                              ''blackberry'', ''iemobile'', ''opera mini'', ''tablet''] ua),
                   isIOS = regex_test [''iphone'', ''ipad'', ''ipod''] ua,
                   isAndroid = regex_test [''android''] ua,
                   isMac = regex_test [''mac''] pf,
                   isWindows = regex_test [''win''] pf,
                   hasTouch = (ontouchstart_in_window b \<or> maxTouchPoints b > 0),
                   hasHover = hover_hover b,
                   canVibrate = vibrate_in_navigator b,
                   isChrome = regex_test [''chrome''] ua,
                   isFirefox = regex_test [''firefox''] ua,
                   isSafari = (regex_test [''safari''] ua \<and> \<not> regex_test [''chrome''] ua),
                   connection = (navigator_connection b \<noteq> None),
                   pixelRatio = (if devicePixelRatio b = 0 then 1 else devicePixelRatio b)\<rparr>;
                refined =
                  (if isMobile info \<and> (innerWidth b > 768 \<or> innerHeight b > 768)
                   then info\<lparr>isTablet := True, isMobile := False\<rparr> else info)
            in Done (p\<lparr>deviceInfo := Some refined\<rparr>)))"

text \<open>
  Of the screen snapshot the model keeps the fields the script reads again, and the
  viewport size; the available size, the orientation angle, the aspect ratio and the safe
  areas are written and never read.
\<close>

definition detectScreen :: "browser \<Rightarrow> page \<Rightarrow> (unit, page) outcome" where
  "detectScreen b p =
     Done (p\<lparr>screenInfo := Some
       \<lparr>width = innerWidth b,
        height = innerHeight b,
        isXSmall = (innerWidth b < 480),
        isSmall = (innerWidth b \<ge> 480 \<and> innerWidth b < 768),
        isMedium = (innerWidth b \<ge> 768 \<and> innerWidth b < 1024),
        isLarge = (innerWidth b \<ge> 1024 \<and> innerWidth b < 1200),
        isXLarge = (innerWidth b \<ge> 1200),
        isPortrait = (innerHeight b > innerWidth b),
        isLandscape = (innerWidth b > innerHeight b)\<rparr>\<rparr>)"

definition dev :: "(device_info \<Rightarrow> bool) \<Rightarrow> page \<Rightarrow> bool" where
  \<comment> \<open>\<open>this.deviceInfo.f\<close> read as a condition\<close>
  "dev f p = (case deviceInfo p of None \<Rightarrow> False | Some i \<Rightarrow> f i)"

definition scr :: "(screen_info \<Rightarrow> bool) \<Rightarrow> page \<Rightarrow> bool" where
  \<comment> \<open>\<open>this.screenInfo.f\<close> read as a condition\<close>
  "scr f p = (case screenInfo p of None \<Rightarrow> False | Some i \<Rightarrow> f i)"

section \<open>Interface optimisation\<close>

text \<open>
  The style sheets the script injects. White space between the tokens of a sheet is
  written as one space.
\<close>

definition touch_css :: string where
  "touch_css =
     ''.touch-device .tab-button { min-height: 44px; padding: 1rem 1.5rem; } '' @
     ''.touch-device .theme-toggle { width: 48px; height: 48px; min-width: 44px; min-height: 44px; } '' @
     ''.touch-device .faq-item h4 { min-height: 44px; padding: 1rem 0; }''"

definition performance_css :: string where
  "performance_css =
     ''* { transition-duration: 0.1s !important; animation-duration: 0.1s !important; } '' @
     ''.content-card:hover { transform: none !important; }''"

definition mobile_css :: string where
  "mobile_css =
     ''.device-mobile .container { padding: 0 12px; } '' @
     ''.device-mobile .content-card { margin-bottom: 1rem; padding: 1rem; } '' @
     ''.device-mobile .hero { padding: 1rem 0; } '' @
     ''.device-mobile .tabs { padding: 0 0.5rem; } ''"

definition tablet_css :: string where
  "tablet_css =
     ''.device-tablet .container { padding: 0 24px; } '' @
     ''.device-tablet .tabs { gap: 1.5rem; } '' @
     ''.device-tablet .content-card { padding: 1.5rem; } ''"

definition landscape_css :: string where
  "landscape_css =
     ''.device-mobile.orientation-landscape .hero { padding: 0.5rem 0; margin-bottom: 1.5rem; } '' @
     ''.device-mobile.orientation-landscape .hero h2 { font-size: 1.8rem; } ''"

definition high_dpi_css :: string where
  "high_dpi_css =
     ''.logo i { font-size: 2.2rem; } '' @
     ''.tab-button i { font-size: 1.1rem; } ''"

definition battery_css :: string where
  "battery_css = ''.low-battery * { transition: none !important; animation: none !important; }''"

definition querySelector_id :: "string \<Rightarrow> element list \<Rightarrow> nat option" where
  \<comment> \<open>\<open>document.querySelector('#name')\<close> for the fixed names of the script\<close>
  "querySelector_id name d = first_index (\<lambda>e. ident e = name) d"

definition replace_style_block :: "string \<Rightarrow> string \<Rightarrow> page \<Rightarrow> (unit, page) outcome" where
  \<comment> \<open>the statements \<open>optimizeTouchInteractions\<close>, \<open>optimizePerformance\<close> and
      \<open>adjustLayoutForScreen\<close> each end with: create the sheet, remove the element that has
      its id if there is one, give the sheet the id, append it to the head\<close>
  "replace_style_block name css p =
     (let style = (createElement ''style'')\<lparr>textContent := css\<rparr>;
          d1 = (case querySelector_id name (doc p) of
                  None \<Rightarrow> doc p
                | Some existing \<Rightarrow> remove_element existing (doc p));
          style1 = style\<lparr>ident := name\<rparr>
      in case document_head d1 of
           None \<Rightarrow> Thrown TypeError (p\<lparr>doc := d1\<rparr>)
         | Some head \<Rightarrow> Done (p\<lparr>doc := appendChild head style1 d1\<rparr>))"

definition optimizeTouchInteractions :: "page \<Rightarrow> (unit, page) outcome" where
  "optimizeTouchInteractions p =
     (if \<not> dev hasTouch p then Done p
      else replace_style_block ''touch-optimization'' touch_css p)"

definition documentElement :: "element list \<Rightarrow> nat option" where
  "documentElement d = (if d = [] then None else Some 0)"

definition optimizeScrolling :: "page \<Rightarrow> (unit, page) outcome" where
  "optimizeScrolling p =
     and_then
       (if dev isIOS p then
          (case document_body (doc p) of
             None \<Rightarrow> Thrown TypeError p
           | Some body \<Rightarrow>
               Done (p\<lparr>doc := update_at body (set_style ''webkitOverflowScrolling'' ''touch'') (doc p)\<rparr>))
        else Done p)
       (\<lambda>p1. let scrollBehavior = (if dev isMobile p1 then ''auto'' else ''smooth'') in
              case documentElement (doc p1) of
                None \<Rightarrow> Thrown TypeError p1
              | Some html \<Rightarrow>
                  Done (p1\<lparr>doc := update_at html (set_style ''scrollBehavior'' scrollBehavior) (doc p1)\<rparr>))"

definition prefersReducedMotion :: "browser \<Rightarrow> bool" where
  "prefersReducedMotion b = (has_matchMedia b \<and> prefers_reduced_motion b)"

definition connection_saveData :: "browser \<Rightarrow> page \<Rightarrow> bool" where
  \<comment> \<open>\<open>this.deviceInfo.connection && this.deviceInfo.connection.saveData\<close>\<close>
  "connection_saveData b p =
     (dev connection p \<and> (case navigator_connection b of None \<Rightarrow> False | Some c \<Rightarrow> saveData c))"

definition optimizePerformance :: "browser \<Rightarrow> page \<Rightarrow> (unit, page) outcome" where
  "optimizePerformance b p =
     (let isLowEndDevice = (dev (\<lambda>i. pixelRatio i \<le> 1) p \<or> connection_saveData b p) in
      if isLowEndDevice \<or> prefersReducedMotion b
      then replace_style_block ''performance-optimization'' performance_css p
      else Done p)"

definition adjustLayoutForScreen :: "page \<Rightarrow> (unit, page) outcome" where
  "adjustLayoutForScreen p =
     (let css = (if dev isMobile p then mobile_css else []) @
                (if dev isTablet p then tablet_css else []) @
                (if dev isMobile p \<and> scr isLandscape p then landscape_css else []) @
                (if dev (\<lambda>i. pixelRatio i > 2) p then high_dpi_css else [])
      in replace_style_block ''layout-optimization'' css p)"

definition body_classes :: "page \<Rightarrow> element \<Rightarrow> element" where
  \<comment> \<open>what \<open>optimizeInterface\<close> does to the class list of the body\<close>
  "body_classes p e =
     (let e1 = fold classList_remove
                 [''device-mobile'', ''device-tablet'', ''device-desktop'', ''touch-device'',
                  ''no-touch'', ''orientation-portrait'', ''orientation-landscape''] e;
          e2 = classList_add
                 (if dev isMobile p then ''device-mobile''
                  else if dev isTablet p then ''device-tablet'' else ''device-desktop'') e1;
          e3 = classList_add (if dev hasTouch p then ''touch-device'' else ''no-touch'') e2;
          e4 = classList_add
                 (if scr isPortrait p then ''orientation-portrait'' else ''orientation-landscape'') e3;
          e5 = fold (\<lambda>sz. classList_remove (''screen-'' @ sz))
                 [''xs'', ''sm'', ''md'', ''lg'', ''xl''] e4
      in classList_add
           (if scr isXSmall p then ''screen-xs''
            else if scr isSmall p then ''screen-sm''
            else if scr isMedium p then ''screen-md''
            else if scr isLarge p then ''screen-lg'' else ''screen-xl'') e5)"

definition optimizeInterface :: "browser \<Rightarrow> page \<Rightarrow> (unit, page) outcome" where
  "optimizeInterface b p =
     (case document_body (doc p) of
        None \<Rightarrow> Thrown TypeError p
      | Some body \<Rightarrow>
          and_then (optimizeTouchInteractions (p\<lparr>doc := update_at body (body_classes p) (doc p)\<rparr>))
            (\<lambda>p1. and_then (optimizeScrolling p1)
              (\<lambda>p2. and_then (optimizePerformance b p2) adjustLayoutForScreen)))"

definition optimizeForBattery :: "rat \<Rightarrow> bool \<Rightarrow> page \<Rightarrow> (unit, page) outcome" where
  \<comment> \<open>the listener of \<open>levelchange\<close> and \<open>chargingchange\<close>, also called once when the
      battery is first known; the arguments are \<open>battery.level\<close> and \<open>battery.charging\<close>\<close>
  "optimizeForBattery level charging p =
     (case document_body (doc p) of
        None \<Rightarrow> Thrown TypeError p
      | Some body \<Rightarrow>
          if level < 2 / 10 \<or> \<not> charging then
            (let p1 = p\<lparr>doc := update_at body (classList_add ''low-battery'') (doc p)\<rparr>;
                 style = (createElement ''style'')\<lparr>textContent := battery_css, ident := ''battery-optimization''\<rparr>
             in case document_head (doc p1) of
                  None \<Rightarrow> Thrown TypeError p1
                | Some head \<Rightarrow> Done (p1\<lparr>doc := appendChild head style (doc p1)\<rparr>))
          else
            (let p1 = p\<lparr>doc := update_at body (classList_remove ''low-battery'') (doc p)\<rparr> in
             case querySelector_id ''battery-optimization'' (doc p1) of
               None \<Rightarrow> Done p1
             | Some batteryStyles \<Rightarrow> Done (p1\<lparr>doc := remove_element batteryStyles (doc p1)\<rparr>)))"

section \<open>Start of the page\<close>

definition init :: "browser \<Rightarrow> page \<Rightarrow> (unit, page) outcome" where
  \<comment> \<open>\<open>setupEventListeners\<close> and \<open>setupDynamicOptimization\<close> register listeners only\<close>
  "init b p =
     and_then (detectDevice b p)
       (\<lambda>p1. and_then (detectScreen b p1)
         (\<lambda>p2. and_then (optimizeInterface b p2)
           (\<lambda>p3. and_then (loadTheme b p3)
             (\<lambda>p4. and_then (setupFAQInteractivity p4) (initializeActiveTab b)))))"

definition new_GreenMaxWebsite :: "browser \<Rightarrow> page \<Rightarrow> (unit, page) outcome" where
  \<comment> \<open>the constructor; of the page given, the instance fields are not read\<close>
  "new_GreenMaxWebsite b p =
     init b (p\<lparr>currentTheme := ''light'', currentTab := ''general'',
               deviceInfo := None, screenInfo := None\<rparr>)"

section \<open>Clipboard\<close>

definition copy_attempt :: "browser \<Rightarrow> string \<Rightarrow> page \<Rightarrow> (bool, page) outcome" where
  \<comment> \<open>the body of the \<open>try\<close> block\<close>
  "copy_attempt b text p =
     (if navigator_clipboard b \<and> isSecureContext b then
        (case writeText b text of
           Some e \<Rightarrow> Thrown e p
         | None \<Rightarrow> Returned True p)
      else
        (let textArea = set_style ''top'' ''-999999px''
                          (set_style ''left'' ''-999999px''
                            (set_style ''position'' ''fixed''
                              ((createElement ''textarea'')\<lparr>control_value := text\<rparr>)))
         in case document_body (doc p) of
              None \<Rightarrow> Thrown TypeError p
            | Some body \<Rightarrow>
                (let pos = Suc body + length (descendants body (doc p));
                     p1 = p\<lparr>doc := appendChild body textArea (doc p)\<rparr>
                 in case execCommand_copy b of
                      Inl e \<Rightarrow> Thrown e p1
                    | Inr success \<Rightarrow> Returned success (p1\<lparr>doc := remove_element pos (doc p1)\<rparr>))))"

definition copyToClipboard :: "browser \<Rightarrow> string \<Rightarrow> page \<Rightarrow> (bool, page) outcome" where
  "copyToClipboard b text p =
     (case copy_attempt b text p of
        Returned r p1 \<Rightarrow> Returned r p1
      | Thrown err p1 \<Rightarrow> Returned False (p1\<lparr>console_errors := console_errors p1 @ [err]\<rparr>))"

section \<open>A page to run the script on\<close>

definition el :: "string \<Rightarrow> string \<Rightarrow> string list \<Rightarrow> nat \<Rightarrow> element" where
  "el t i cs n = (createElement t)\<lparr>ident := i, classes := cs, depth := n\<rparr>"

definition sample_doc :: "element list" where
  "sample_doc =
     [el ''html'' [] [] 0,
      el ''head'' [] [] 1,
      el ''body'' [] [] 1,
      el ''button'' ''themeToggle'' [''theme-toggle''] 2,
      el ''i'' ''themeIcon'' [''fas'', ''fa-moon''] 3,
      (el ''button'' [] [''tab-button'', ''active''] 2)\<lparr>attrs := [''data-tab'' \<mapsto> ''general'']\<rparr>,
      (el ''button'' [] [''tab-button''] 2)\<lparr>attrs := [''data-tab'' \<mapsto> ''faq'']\<rparr>,
      el ''div'' ''general'' [''tab-panel'', ''active''] 2,
      el ''div'' ''faq'' [''tab-panel''] 2,
      el ''div'' [] [''faq-item''] 3,
      el ''h4'' [] [] 4,
      (el ''div'' [] [''faq-answer''] 4)\<lparr>scrollHeight := 120\<rparr>]"

definition sample_doc_without_icon :: "element list" where
  "sample_doc_without_icon = filter (\<lambda>e. ident e \<noteq> ''themeIcon'') sample_doc"

definition sample_browser :: browser where
  "sample_browser =
     \<lparr>userAgent = units ''Mozilla/5.0 (Linux; Android 13; Pixel 7) Mobile Safari/537.36'',
      platform = units ''Linux armv8l'',
      unicode_lowercase =
        (\<lambda>s i. if s ! i = 0x212A then [0x6B]
               else if s ! i = 0x0130 then [0x69, 0x0307]
               else [s ! i]),
      innerWidth = 412,
      innerHeight = 915,
      has_matchMedia = True,
      prefers_dark = False,
      prefers_reduced_motion = False,
      hover_hover = False,
      ontouchstart_in_window = True,
      maxTouchPoints = 5,
      vibrate_in_navigator = True,
      navigator_connection = None,
      devicePixelRatio = 3,
      other_selector = (\<lambda>s d. Inl (DOMException ''SyntaxError'')),
      navigator_clipboard = True,
      isSecureContext = True,
      writeText = (\<lambda>s. None),
      execCommand_copy = Inr True\<rparr>"

definition page_of :: "element list \<Rightarrow> (string \<rightharpoonup> string) \<Rightarrow> string \<Rightarrow> page" where
  \<comment> \<open>a page before the script runs\<close>
  "page_of d storage frag =
     \<lparr>doc = d, localStorage = storage, fragment = frag, currentTheme = [], currentTab = [],
      deviceInfo = None, screenInfo = None, timers = [], console_errors = []\<rparr>"

definition constructed :: "element list \<Rightarrow> (string \<rightharpoonup> string) \<Rightarrow> string \<Rightarrow> page" where
  \<comment> \<open>the page when the constructor has assigned the fields and \<open>init\<close> starts\<close>
  "constructed d storage frag =
     (page_of d storage frag)\<lparr>currentTheme := ''light'', currentTab := ''general''\<rparr>"

section \<open>What is observed of a call and of a page\<close>

primrec result_page :: "('r, page) outcome \<Rightarrow> page" where
  "result_page (Returned r p) = p"
| "result_page (Thrown e p) = p"

primrec thrown_error :: "('r, 's) outcome \<Rightarrow> error option" where
  "thrown_error (Returned r p) = None"
| "thrown_error (Thrown e p) = Some e"

definition body_attr :: "string \<Rightarrow> page \<Rightarrow> string option" where
  \<comment> \<open>\<open>document.body.getAttribute(k)\<close>\<close>
  "body_attr k p = (case document_body (doc p) of None \<Rightarrow> None | Some b \<Rightarrow> attrs (doc p ! b) k)"

definition icon_classes :: "page \<Rightarrow> string list option" where
  \<comment> \<open>the class tokens of the element with id \<open>themeIcon\<close>\<close>
  "icon_classes p =
     (case getElementById ''themeIcon'' (doc p) of
        None \<Rightarrow> None
      | Some i \<Rightarrow> Some (classes (doc p ! i)))"

definition head_style_count :: "string \<Rightarrow> page \<Rightarrow> nat" where
  \<comment> \<open>how many \<open>style\<close> elements with the given id the head holds\<close>
  "head_style_count name p =
     (case document_head (doc p) of
        None \<Rightarrow> 0
      | Some h \<Rightarrow> length (filter (\<lambda>e. tag e = ''style'' \<and> ident e = name) (descendants h (doc p))))"

definition theme_state :: "page \<Rightarrow> string \<times> (string \<rightharpoonup> string)" where
  \<comment> \<open>the theme of the controller and the content of local storage\<close>
  "theme_state p = (currentTheme p, localStorage p)"

definition id_count :: "string \<Rightarrow> page \<Rightarrow> nat" where
  \<comment> \<open>how many elements of the document have the given id\<close>
  "id_count name p = length (filter (\<lambda>e. ident e = name) (doc p))"

definition active_elements :: "page \<Rightarrow> nat list" where
  \<comment> \<open>the positions of the tab buttons and tab panels marked \<open>active\<close>\<close>
  "active_elements p =
     filter (\<lambda>i. (classList_contains ''tab-button'' (doc p ! i) \<or> classList_contains ''tab-panel'' (doc p ! i)) \<and>
                 classList_contains ''active'' (doc p ! i))
       [0..<length (doc p)]"

section \<open>Runs of the script on the sample page\<close>

definition loaded_page :: page where
  \<comment> \<open>the sample page when the constructor has run\<close>
  "loaded_page = result_page (new_GreenMaxWebsite sample_browser (page_of sample_doc Map.empty []))"

definition page_without_icon :: page where
  \<comment> \<open>the same, for the document that has no element with id \<open>themeIcon\<close>\<close>
  "page_without_icon =
     result_page (new_GreenMaxWebsite sample_browser (page_of sample_doc_without_icon Map.empty []))"

definition blue_page :: page where
  \<comment> \<open>the theme is loaded while local storage holds the value \<open>blue\<close>\<close>
  "blue_page =
     result_page (loadTheme sample_browser (constructed sample_doc [''greenmax-theme'' \<mapsto> ''blue''] []))"


definition empty_string_stored :: page where
  \<comment> \<open>the constructed page while local storage holds the empty string\<close>
  "empty_string_stored = constructed sample_doc [''greenmax-theme'' \<mapsto> []] []"

definition low_battery_once :: page where
  "low_battery_once = result_page (optimizeForBattery (1 / 10) False loaded_page)"

definition low_battery_twice :: page where
  "low_battery_twice = result_page (optimizeForBattery (1 / 10) False low_battery_once)"

definition faq_toggled :: "nat \<Rightarrow> page \<Rightarrow> page" where
  "faq_toggled item p = result_page (toggleFAQItem item p)"

definition browser_without_clipboard :: browser where
  \<comment> \<open>no clipboard API; the \<open>copy\<close> command reports that it did not copy\<close>
  "browser_without_clipboard = sample_browser\<lparr>navigator_clipboard := False, execCommand_copy := Inr False\<rparr>"

definition browser_failing_copy :: browser where
  \<comment> \<open>no clipboard API; the \<open>copy\<close> command throws\<close>
  "browser_failing_copy =
     sample_browser\<lparr>navigator_clipboard := False,
                     execCommand_copy := Inl (DOMException ''NotAllowedError'')\<rparr>"

definition page_without_body :: page where
  \<comment> \<open>a document that has a root element only\<close>
  "page_without_body = page_of [el ''html'' [] [] 0] Map.empty []"

definition phone_768 :: browser where
  \<comment> \<open>the sample phone with a viewport of 412 by 768\<close>
  "phone_768 = sample_browser\<lparr>innerHeight := 768\<rparr>"

definition kelvin_phone :: browser where
  \<comment> \<open>a small phone whose user agent writes the k of BlackBerry as the Kelvin sign\<close>
  "kelvin_phone =
     sample_browser\<lparr>userAgent := units ''Blac'' @ [0x212A] @ units ''Berry 9900'',
                     innerWidth := 320, innerHeight := 480\<rparr>"

definition browser_refusing_clipboard :: browser where
  \<comment> \<open>the clipboard API rejects the write\<close>
  "browser_refusing_clipboard =
     sample_browser\<lparr>writeText := (\<lambda>s. Some (DOMException ''NotAllowedError''))\<rparr>"

section \<open>Lists and the document: auxiliary facts\<close>


lemma first_index_Some:
  "first_index P xs = Some i \<Longrightarrow> i < length xs \<and> P (xs ! i)"
  by (induction xs arbitrary: i) (auto split: if_splits)

lemma first_index_map_keys:
  "map P xs = map Q ys \<Longrightarrow> first_index P xs = first_index Q ys"
proof (induction xs arbitrary: ys)
  case Nil
  then show ?case by simp
next
  case (Cons x xs)
  then obtain y ys' where ys: "ys = y # ys'" by (cases ys) auto
  with Cons.prems have "P x = Q y" and "map P xs = map Q ys'" by simp_all
  with Cons.IH [of ys'] ys show ?case by simp
qed

lemma length_update_at [simp]: "length (update_at i f d) = length d"
  by (simp add: update_at_def)

lemma map_update_at:
  assumes "\<And>e. g (f e) = g e"
  shows "map g (update_at i f d) = map g d"
  by (simp add: update_at_def map_update assms list_update_same_conv)

lemma nth_update_at_same:
  "i < length d \<Longrightarrow> update_at i f d ! i = f (d ! i)"
  by (simp add: update_at_def)

lemma nth_update_at_keeps:
  assumes "\<And>e. g (f e) = g e"
  shows "g (update_at i f d ! j) = g (d ! j)"
  by (cases "j = i") (auto simp: update_at_def assms)

lemma first_index_update_at:
  assumes "\<And>e. P (f e) = P e"
  shows "first_index P (update_at i f d) = first_index P d"
proof -
  have "map P (update_at i f d) = map P d"
    by (rule map_update_at) (rule assms)
  then show ?thesis by (rule first_index_map_keys)
qed

lemma first_index_forEach:
  assumes "\<And>e. P (f e) = P e"
  shows "first_index P (forEach_matching Q f d) = first_index P d"
proof -
  have "map P (forEach_matching Q f d) = map P d"
    by (simp add: forEach_matching_def assms)
  then show ?thesis by (rule first_index_map_keys)
qed

lemma document_body_update_at:
  "(\<And>e. tag (f e) = tag e) \<Longrightarrow> document_body (update_at i f d) = document_body d"
  unfolding document_body_def by (rule first_index_update_at) simp

lemma getElementById_update_at:
  "(\<And>e. ident (f e) = ident e) \<Longrightarrow> getElementById n (update_at i f d) = getElementById n d"
  unfolding getElementById_def by (simp add: first_index_update_at)

lemma getElementById_forEach:
  "(\<And>e. ident (f e) = ident e) \<Longrightarrow> getElementById n (forEach_matching Q f d) = getElementById n d"
  unfolding getElementById_def by (simp add: first_index_forEach)

lemma document_body_Some: "document_body d = Some b \<Longrightarrow> b < length d"
  unfolding document_body_def by (drule first_index_Some) simp

lemma getElementById_Some: "getElementById n d = Some i \<Longrightarrow> i < length d"
  unfolding getElementById_def by (auto split: if_splits dest: first_index_Some)

lemma takeWhile_first_index_keys:
  "map (\<lambda>e. (P e, Q e)) xs = map (\<lambda>e. (P e, Q e)) ys \<Longrightarrow>
   first_index P (takeWhile Q xs) = first_index P (takeWhile Q ys)"
proof (induction xs arbitrary: ys)
  case Nil
  then show ?case by simp
next
  case (Cons x xs)
  then obtain y ys' where ys: "ys = y # ys'" by (cases ys) auto
  with Cons.prems have "P x = P y" "Q x = Q y"
    and "map (\<lambda>e. (P e, Q e)) xs = map (\<lambda>e. (P e, Q e)) ys'" by simp_all
  with Cons.IH [of ys'] ys show ?case by simp
qed

lemma drop_update_at_before:
  "i \<le> n \<Longrightarrow> drop (Suc n) (update_at i f d) = drop (Suc n) d"
  by (simp add: update_at_def)

text \<open>
  A change of one element leaves the result of \<open>item.querySelector\<close> as it was when the
  change keeps the depth and either is made to \<open>item\<close> itself (or before it) or keeps what
  the selector tests.
\<close>

lemma element_querySelector_update_at:
  assumes dep: "\<And>e. depth (f e) = depth e"
    and keep: "i \<le> item \<or> (\<forall>e. P (f e) = P e)"
  shows "element_querySelector P item (update_at i f d) = element_querySelector P item d"
proof -
  let ?d' = "update_at i f d"
  have d0: "depth (?d' ! item) = depth (d ! item)"
    by (rule nth_update_at_keeps) (rule dep)
  let ?Q = "\<lambda>e. depth (d ! item) < depth e"
  have "map (\<lambda>e. (P e, ?Q e)) (drop (Suc item) ?d') = map (\<lambda>e. (P e, ?Q e)) (drop (Suc item) d)"
  proof (cases "i \<le> item")
    case True
    then show ?thesis by (simp add: drop_update_at_before)
  next
    case False
    with keep have "\<And>e. P (f e) = P e" by simp
    then have "map (\<lambda>e. (P e, ?Q e)) ?d' = map (\<lambda>e. (P e, ?Q e)) d"
      by (intro map_update_at) (simp add: dep)
    then show ?thesis by (simp only: drop_map [symmetric])
  qed
  then have "first_index P (takeWhile ?Q (drop (Suc item) ?d')) =
             first_index P (takeWhile ?Q (drop (Suc item) d))"
    by (rule takeWhile_first_index_keys)
  then show ?thesis
    by (simp add: element_querySelector_def descendants_def d0)
qed

lemma element_querySelector_Some:
  assumes "element_querySelector P item d = Some q"
  shows "item < q \<and> q < length d \<and> P (d ! q)"
proof -
  let ?xs = "takeWhile (\<lambda>e. depth (d ! item) < depth e) (drop (Suc item) d)"
  from assms obtain k where k: "first_index P ?xs = Some k" and q: "q = Suc item + k"
    by (auto simp: element_querySelector_def descendants_def)
  from k have kl: "k < length ?xs" and pk: "P (?xs ! k)"
    using first_index_Some by blast+
  have "length ?xs \<le> length (drop (Suc item) d)" by (rule length_takeWhile_le)
  with kl have kd: "k < length (drop (Suc item) d)" by simp
  then have ql: "Suc item + k < length d" by simp
  have "?xs ! k = drop (Suc item) d ! k" using kl by (rule takeWhile_nth)
  also have "\<dots> = d ! (Suc item + k)" using ql by simp
  finally show ?thesis using pk q ql by simp
qed

section \<open>Theme: what applying, loading and toggling do\<close>

lemma applyTheme_effect:
  assumes body: "document_body (doc p) = Some b"
    and icon: "getElementById ''themeIcon'' (doc p) = Some i"
  shows "\<exists>p'. applyTheme p = Done p' \<and>
           currentTheme p' = currentTheme p \<and>
           localStorage p' = (localStorage p)(''greenmax-theme'' \<mapsto> currentTheme p) \<and>
           body_attr ''data-theme'' p' = (if currentTheme p = ''dark'' then Some ''dark'' else None) \<and>
           icon_classes p' =
             Some (if currentTheme p = ''dark'' then [''fas'', ''fa-sun''] else [''fas'', ''fa-moon'']) \<and>
           document_body (doc p') = Some b \<and>
           getElementById ''themeIcon'' (doc p') = Some i"
proof -
  from body have bl: "b < length (doc p)" by (rule document_body_Some)
  from icon have il: "i < length (doc p)" by (rule getElementById_Some)
  show ?thesis
  proof (cases "currentTheme p = ''dark''")
    case True
    let ?d1 = "update_at b (setAttribute ''data-theme'' ''dark'') (doc p)"
    let ?d2 = "update_at i (set_className [''fas'', ''fa-sun'']) ?d1"
    let ?p' = "p\<lparr>doc := ?d2, localStorage := (localStorage p)(''greenmax-theme'' \<mapsto> currentTheme p)\<rparr>"
    have run: "applyTheme p = Done ?p'"
      using True body icon by (simp add: applyTheme_def)
    have b2: "document_body ?d2 = Some b"
      using body by (simp add: document_body_update_at set_className_def setAttribute_def)
    have i2: "getElementById ''themeIcon'' ?d2 = Some i"
      using icon by (simp add: getElementById_update_at set_className_def setAttribute_def)
    have "attrs (?d2 ! b) ''data-theme'' = attrs (?d1 ! b) ''data-theme''"
      by (rule nth_update_at_keeps [where g = "\<lambda>e. attrs e ''data-theme''"]) (simp add: set_className_def)
    then have a: "attrs (?d2 ! b) ''data-theme'' = Some ''dark''"
      using bl by (simp add: nth_update_at_same setAttribute_def)
    have c: "classes (?d2 ! i) = [''fas'', ''fa-sun'']"
      using il by (simp add: nth_update_at_same set_className_def)
    show ?thesis
      using run True b2 i2 a c by (simp add: body_attr_def icon_classes_def)
  next
    case False
    let ?d1 = "update_at b (removeAttribute ''data-theme'') (doc p)"
    let ?d2 = "update_at i (set_className [''fas'', ''fa-moon'']) ?d1"
    let ?p' = "p\<lparr>doc := ?d2, localStorage := (localStorage p)(''greenmax-theme'' \<mapsto> currentTheme p)\<rparr>"
    have run: "applyTheme p = Done ?p'"
      using False body icon by (simp add: applyTheme_def)
    have b2: "document_body ?d2 = Some b"
      using body by (simp add: document_body_update_at set_className_def removeAttribute_def)
    have i2: "getElementById ''themeIcon'' ?d2 = Some i"
      using icon by (simp add: getElementById_update_at set_className_def removeAttribute_def)
    have "attrs (?d2 ! b) ''data-theme'' = attrs (?d1 ! b) ''data-theme''"
      by (rule nth_update_at_keeps [where g = "\<lambda>e. attrs e ''data-theme''"]) (simp add: set_className_def)
    then have a: "attrs (?d2 ! b) ''data-theme'' = None"
      using bl by (simp add: nth_update_at_same removeAttribute_def)
    have c: "classes (?d2 ! i) = [''fas'', ''fa-moon'']"
      using il by (simp add: nth_update_at_same set_className_def)
    show ?thesis
      using run False b2 i2 a c by (simp add: body_attr_def icon_classes_def)
  qed
qed

text \<open>
  \<open>applyTheme\<close> returns only when the document has a body and the theme icon; it throws
  when the icon is missing, after the body has been marked and before storage is written.
\<close>

lemma applyTheme_Done_needs:
  assumes "applyTheme p0 = Done p"
  shows "\<exists>b i. document_body (doc p0) = Some b \<and> getElementById ''themeIcon'' (doc p0) = Some i"
  using assms by (auto simp: applyTheme_def Let_def split: option.splits if_splits)

lemma applyTheme_without_icon:
  assumes "document_body (doc p) = Some b" and "getElementById ''themeIcon'' (doc p) = None"
  shows "\<exists>p'. applyTheme p = Thrown TypeError p' \<and> localStorage p' = localStorage p"
  using assms by (simp add: applyTheme_def)





text \<open>
  Claim C7. At load time the theme is \<open>light\<close>, the value the constructor assigns. When
  storage holds no preference (no value, or the empty string, which the script reads as
  none) and the document has its body and theme icon, \<open>loadTheme\<close> returns with the theme
  \<open>dark\<close> if the \<open>prefers-color-scheme: dark\<close> query matches and \<open>light\<close> otherwise, and
  the body attribute and the icon show that theme.
\<close>

theorem loadTheme_follows_system_preference:
  assumes none: "\<not> truthy (localStorage p ''greenmax-theme'')"
    and start: "currentTheme p = ''light''"
    and body: "document_body (doc p) = Some b"
    and icon: "getElementById ''themeIcon'' (doc p) = Some i"
  shows "\<exists>p'. loadTheme br p = Done p' \<and>
           currentTheme p' = (if has_matchMedia br \<and> prefers_dark br then ''dark'' else ''light'') \<and>
           body_attr ''data-theme'' p' =
             (if has_matchMedia br \<and> prefers_dark br then Some ''dark'' else None) \<and>
           icon_classes p' =
             Some (if has_matchMedia br \<and> prefers_dark br then [''fas'', ''fa-sun'']
                   else [''fas'', ''fa-moon''])"
proof -
  let ?q = "if has_matchMedia br \<and> prefers_dark br then p\<lparr>currentTheme := ''dark''\<rparr> else p"
  have run: "loadTheme br p = applyTheme ?q"
    using none by (simp add: loadTheme_def)
  have "document_body (doc ?q) = Some b" and "getElementById ''themeIcon'' (doc ?q) = Some i"
    using body icon by simp_all
  from applyTheme_effect [OF this] obtain p' where
    "applyTheme ?q = Done p'"
    "currentTheme p' = currentTheme ?q"
    "body_attr ''data-theme'' p' = (if currentTheme ?q = ''dark'' then Some ''dark'' else None)"
    "icon_classes p' =
       Some (if currentTheme ?q = ''dark'' then [''fas'', ''fa-sun''] else [''fas'', ''fa-moon''])"
    by blast
  then show ?thesis
    using run start by (cases "has_matchMedia br \<and> prefers_dark br") auto
qed

theorem loadTheme_follows_system_preference_witness:
  "\<not> truthy (localStorage (constructed sample_doc Map.empty []) ''greenmax-theme'') \<and>
   currentTheme (constructed sample_doc Map.empty []) = ''light'' \<and>
   document_body (doc (constructed sample_doc Map.empty [])) = Some 2 \<and>
   getElementById ''themeIcon'' (doc (constructed sample_doc Map.empty [])) = Some 4 \<and>
   (\<exists>p'. loadTheme (sample_browser\<lparr>prefers_dark := True\<rparr>) (constructed sample_doc Map.empty []) = Done p' \<and>
      currentTheme p' = ''dark'' \<and>
      body_attr ''data-theme'' p' = Some ''dark'' \<and>
      icon_classes p' = Some [''fas'', ''fa-sun''])"
proof -
  let ?p = "constructed sample_doc Map.empty []"
  have none: "\<not> truthy (localStorage ?p ''greenmax-theme'')" by code_simp
  have start: "currentTheme ?p = ''light''" by code_simp
  have body: "document_body (doc ?p) = Some 2" by code_simp
  have icon: "getElementById ''themeIcon'' (doc ?p) = Some 4" by code_simp
  have dark: "has_matchMedia (sample_browser\<lparr>prefers_dark := True\<rparr>) \<and>
              prefers_dark (sample_browser\<lparr>prefers_dark := True\<rparr>)"
    by (simp add: sample_browser_def)
  show ?thesis
    using loadTheme_follows_system_preference
            [OF none start body icon, of "sample_browser\<lparr>prefers_dark := True\<rparr>"]
          none start body icon dark
    by simp
qed

text \<open>
  Claim C10, as amended. With body and icon in the document, \<open>applyTheme\<close> treats every
  theme other than \<open>dark\<close> as light: it removes \<open>data-theme\<close>, sets the moon icon and
  writes the theme to storage as it is. So every stored string that is not empty and is
  not \<open>dark\<close> is shown as the light theme by \<open>loadTheme\<close> and is stored again unchanged.
\<close>

theorem theme_other_than_dark_is_light:
  assumes body: "document_body (doc p) = Some b"
    and icon: "getElementById ''themeIcon'' (doc p) = Some i"
  shows "(currentTheme p \<noteq> ''dark'' \<longrightarrow>
            (\<exists>p'. applyTheme p = Done p' \<and>
                   body_attr ''data-theme'' p' = None \<and>
                   icon_classes p' = Some [''fas'', ''fa-moon''] \<and>
                   currentTheme p' = currentTheme p \<and>
                   localStorage p' ''greenmax-theme'' = Some (currentTheme p))) \<and>
         (\<forall>v. localStorage p ''greenmax-theme'' = Some v \<and> v \<noteq> [] \<and> v \<noteq> ''dark'' \<longrightarrow>
            (\<exists>p'. loadTheme br p = Done p' \<and>
                   body_attr ''data-theme'' p' = None \<and>
                   icon_classes p' = Some [''fas'', ''fa-moon''] \<and>
                   currentTheme p' = v \<and>
                   localStorage p' ''greenmax-theme'' = Some v))"
proof (intro conjI impI allI)
  assume nd: "currentTheme p \<noteq> ''dark''"
  from applyTheme_effect [OF body icon] nd
  show "\<exists>p'. applyTheme p = Done p' \<and>
              body_attr ''data-theme'' p' = None \<and>
              icon_classes p' = Some [''fas'', ''fa-moon''] \<and>
              currentTheme p' = currentTheme p \<and>
              localStorage p' ''greenmax-theme'' = Some (currentTheme p)"
    by auto
next
  fix v
  assume v: "localStorage p ''greenmax-theme'' = Some v \<and> v \<noteq> [] \<and> v \<noteq> ''dark''"
  let ?q = "p\<lparr>currentTheme := v\<rparr>"
  have run: "loadTheme br p = applyTheme ?q"
    using v by (simp add: loadTheme_def truthy_def)
  have "document_body (doc ?q) = Some b" and "getElementById ''themeIcon'' (doc ?q) = Some i"
    using body icon by simp_all
  from applyTheme_effect [OF this] v run
  show "\<exists>p'. loadTheme br p = Done p' \<and>
              body_attr ''data-theme'' p' = None \<and>
              icon_classes p' = Some [''fas'', ''fa-moon''] \<and>
              currentTheme p' = v \<and>
              localStorage p' ''greenmax-theme'' = Some v"
    by auto
qed

theorem theme_other_than_dark_is_light_witness:
  "document_body (doc blue_page) = Some 2 \<and>
   getElementById ''themeIcon'' (doc blue_page) = Some 4 \<and>
   currentTheme blue_page = ''blue'' \<and>
   localStorage blue_page ''greenmax-theme'' = Some ''blue'' \<and>
   (\<exists>p'. applyTheme blue_page = Done p' \<and>
      body_attr ''data-theme'' p' = None \<and>
      icon_classes p' = Some [''fas'', ''fa-moon''] \<and>
      localStorage p' ''greenmax-theme'' = Some ''blue'') \<and>
   (\<exists>p'. loadTheme sample_browser blue_page = Done p' \<and>
      body_attr ''data-theme'' p' = None \<and>
      icon_classes p' = Some [''fas'', ''fa-moon''] \<and>
      currentTheme p' = ''blue'' \<and>
      localStorage p' ''greenmax-theme'' = Some ''blue'')"
proof -
  have body: "document_body (doc blue_page) = Some 2"
    unfolding blue_page_def by code_simp
  have icon: "getElementById ''themeIcon'' (doc blue_page) = Some 4"
    unfolding blue_page_def by code_simp
  have blue: "currentTheme blue_page = ''blue''"
    unfolding blue_page_def by code_simp
  have stored: "localStorage blue_page ''greenmax-theme'' = Some ''blue''"
    unfolding blue_page_def by code_simp
  show ?thesis
    using theme_other_than_dark_is_light [OF body icon, of sample_browser] body icon blue stored
    by auto
qed

text \<open>
  The claim as stated fails for the empty string, which is a stored string that is
  neither \<open>light\<close> nor \<open>dark\<close>: \<open>loadTheme\<close> reads it as no preference, so what is stored
  afterwards is \<open>light\<close>, and where the system prefers dark the page is shown dark.
\<close>

theorem stored_empty_string_not_kept:
  "localStorage empty_string_stored ''greenmax-theme'' = Some [] \<and>
   thrown_error (loadTheme sample_browser empty_string_stored) = None \<and>
   localStorage (result_page (loadTheme sample_browser empty_string_stored)) ''greenmax-theme'' =
     Some ''light'' \<and>
   body_attr ''data-theme''
     (result_page (loadTheme (sample_browser\<lparr>prefers_dark := True\<rparr>) empty_string_stored)) =
     Some ''dark'' \<and>
   localStorage (result_page (loadTheme (sample_browser\<lparr>prefers_dark := True\<rparr>) empty_string_stored))
     ''greenmax-theme'' = Some ''dark''"
  unfolding empty_string_stored_def by code_simp

text \<open>
  Claim C2 (the code does not do what the claim says). \<open>applyTheme\<close> reads
  \<open>themeIcon.className\<close> without the check that \<open>setupEventListeners\<close> makes for
  \<open>themeToggle\<close>. On the sample document without the theme icon, \<open>applyTheme\<close>,
  \<open>toggleTheme\<close> and \<open>loadTheme\<close> throw a TypeError, and so does the constructor: the
  page is left without its first tab selected (no fragment) and without the attributes
  of the FAQ headings, which with the icon present are set.
\<close>

theorem missing_theme_icon_throws:
  "getElementById ''themeIcon'' sample_doc_without_icon = None \<and>
   thrown_error (applyTheme (constructed sample_doc_without_icon Map.empty [])) = Some TypeError \<and>
   thrown_error (toggleTheme (constructed sample_doc_without_icon Map.empty [])) = Some TypeError \<and>
   thrown_error (loadTheme sample_browser (constructed sample_doc_without_icon Map.empty [])) =
     Some TypeError \<and>
   thrown_error (new_GreenMaxWebsite sample_browser (page_of sample_doc_without_icon Map.empty [])) =
     Some TypeError \<and>
   fragment page_without_icon = [] \<and>
   tag (doc page_without_icon ! 11) = ''h4'' \<and>
   attrs (doc page_without_icon ! 11) ''aria-expanded'' = None \<and>
   localStorage page_without_icon ''greenmax-theme'' = None \<and>
   thrown_error (new_GreenMaxWebsite sample_browser (page_of sample_doc Map.empty [])) = None \<and>
   fragment loaded_page = ''general'' \<and>
   tag (doc loaded_page ! 12) = ''h4'' \<and>
   attrs (doc loaded_page ! 12) ''aria-expanded'' = Some ''false''"
  unfolding page_without_icon_def loaded_page_def by code_simp

text \<open>
  Whenever \<open>applyTheme\<close> returns it has written the theme to storage, so \<open>loadTheme\<close>
  writes the key on every start that does not throw.
\<close>

lemma loadTheme_stores:
  assumes body: "document_body (doc p) = Some b"
    and icon: "getElementById ''themeIcon'' (doc p) = Some i"
  shows "\<exists>p'. loadTheme br p = Done p' \<and> localStorage p' ''greenmax-theme'' = Some (currentTheme p')"
proof -
  define q where
    "q = (if truthy (localStorage p ''greenmax-theme'')
          then p\<lparr>currentTheme := the (localStorage p ''greenmax-theme'')\<rparr>
          else if has_matchMedia br \<and> prefers_dark br then p\<lparr>currentTheme := ''dark''\<rparr> else p)"
  have run: "loadTheme br p = applyTheme q"
    by (simp add: loadTheme_def q_def)
  have "document_body (doc q) = Some b" and "getElementById ''themeIcon'' (doc q) = Some i"
    using body icon by (simp_all add: q_def)
  from applyTheme_effect [OF this] run show ?thesis by auto
qed

text \<open>
  Claim C4 (the code does not do what the claim says). With nothing stored,
  \<open>loadTheme\<close> at startup writes the key: after it, and after the whole constructor,
  storage holds \<open>light\<close> on a system that prefers light. The listener for a change of
  the system's colour scheme, which acts only while nothing is stored, then does nothing:
  the system turns dark and the theme stays \<open>light\<close>.
\<close>

theorem loadTheme_writes_storage:
  "localStorage (constructed sample_doc Map.empty []) ''greenmax-theme'' = None \<and>
   thrown_error (loadTheme sample_browser (constructed sample_doc Map.empty [])) = None \<and>
   localStorage (result_page (loadTheme sample_browser (constructed sample_doc Map.empty [])))
     ''greenmax-theme'' = Some ''light'' \<and>
   localStorage loaded_page ''greenmax-theme'' = Some ''light'' \<and>
   thrown_error (on_color_scheme_change True loaded_page) = None \<and>
   currentTheme (result_page (on_color_scheme_change True loaded_page)) = ''light'' \<and>
   body_attr ''data-theme'' (result_page (on_color_scheme_change True loaded_page)) = None"
  unfolding loaded_page_def by code_simp

section \<open>Theme: the constructor\<close>

text \<open>
  Of the steps of \<open>init\<close>, only \<open>loadTheme\<close> changes the theme or local storage. So
  whenever the constructor returns on a page without a stored preference, the theme is
  the system's preference, and it has been written to storage.
\<close>

lemma replace_style_block_theme:
  "replace_style_block n c p = Done p' \<Longrightarrow> theme_state p' = theme_state p"
  by (auto simp: replace_style_block_def Let_def theme_state_def split: option.splits)

lemma optimizeInterface_theme:
  assumes "optimizeInterface b p = Done p'"
  shows "theme_state p' = theme_state p"
proof -
  from assms obtain body p1 p2 p3 where
    "document_body (doc p) = Some body"
    and s1: "optimizeTouchInteractions (p\<lparr>doc := update_at body (body_classes p) (doc p)\<rparr>) = Done p1"
    and s2: "optimizeScrolling p1 = Done p2"
    and s3: "optimizePerformance b p2 = Done p3"
    and s4: "adjustLayoutForScreen p3 = Done p'"
    by (auto simp: optimizeInterface_def and_then_def split: option.splits outcome.splits)
  from s1 have "theme_state p1 = theme_state p"
    by (auto simp: optimizeTouchInteractions_def theme_state_def split: if_splits
             dest!: replace_style_block_theme)
  moreover from s2 have "theme_state p2 = theme_state p1"
    by (auto simp: optimizeScrolling_def and_then_def theme_state_def
             split: if_splits option.splits outcome.splits)
  moreover from s3 have "theme_state p3 = theme_state p2"
    by (auto simp: optimizePerformance_def Let_def theme_state_def split: if_splits
             dest!: replace_style_block_theme)
  moreover from s4 have "theme_state p' = theme_state p3"
    by (auto simp: adjustLayoutForScreen_def Let_def dest!: replace_style_block_theme)
  ultimately show ?thesis by simp
qed

lemma switchTab_theme:
  "switchTab b n p = Done p' \<Longrightarrow> theme_state p' = theme_state p"
  by (auto simp: switchTab_def Let_def theme_state_def split: sum.splits option.splits)

lemma constructor_theme:
  assumes none: "\<not> truthy (localStorage p ''greenmax-theme'')"
    and ret: "new_GreenMaxWebsite b p = Done p'"
  shows "currentTheme p' = (if prefers_dark b then ''dark'' else ''light'') \<and>
         localStorage p' ''greenmax-theme'' = Some (currentTheme p')"
proof -
  let ?c = "p\<lparr>currentTheme := ''light'', currentTab := ''general'', deviceInfo := None, screenInfo := None\<rparr>"
  from ret obtain p1 p2 p3 p4 p5 where
    s1: "detectDevice b ?c = Done p1"
    and s2: "detectScreen b p1 = Done p2"
    and s3: "optimizeInterface b p2 = Done p3"
    and s4: "loadTheme b p3 = Done p4"
    and s5: "setupFAQInteractivity p4 = Done p5"
    and s6: "initializeActiveTab b p5 = Done p'"
    by (auto simp: new_GreenMaxWebsite_def init_def and_then_def split: outcome.splits)
  from s1 have mm: "has_matchMedia b" and t1: "theme_state p1 = theme_state ?c"
    by (auto simp: detectDevice_def Let_def theme_state_def split: if_splits)
  from s2 have t2: "theme_state p2 = theme_state p1"
    by (auto simp: detectScreen_def theme_state_def)
  from optimizeInterface_theme [OF s3] t1 t2 have t3: "theme_state p3 = theme_state ?c" by simp
  then have c3: "currentTheme p3 = ''light''" and l3: "localStorage p3 = localStorage p"
    by (simp_all add: theme_state_def)
  from s4 obtain q where q: "applyTheme q = Done p4"
    and tq: "currentTheme q = (if prefers_dark b then ''dark'' else ''light'')"
    using none mm c3 l3 by (auto simp: loadTheme_def Let_def split: if_splits)
  from applyTheme_Done_needs [OF q] obtain bd ic where
    "document_body (doc q) = Some bd" "getElementById ''themeIcon'' (doc q) = Some ic" by blast
  from applyTheme_effect [OF this] q tq have
    t4: "currentTheme p4 = (if prefers_dark b then ''dark'' else ''light'')"
    and l4: "localStorage p4 ''greenmax-theme'' = Some (currentTheme p4)"
    by auto
  from s5 have t5: "theme_state p5 = theme_state p4"
    by (auto simp: setupFAQInteractivity_def theme_state_def)
  from s6 have "theme_state p' = theme_state p5"
    by (auto simp: initializeActiveTab_def Let_def split: if_splits dest: switchTab_theme)
  with t5 t4 l4 show ?thesis by (simp add: theme_state_def)
qed

section \<open>Tabs: a name without its button and panel\<close>

lemma cleared_no_active:
  fixes e :: element
  defines "e1 \<equiv> (if classList_contains ''tab-button'' e then classList_remove ''active'' e else e)"
  defines "e2 \<equiv> (if classList_contains ''tab-panel'' e1 then classList_remove ''active'' e1 else e1)"
  shows "\<not> ((classList_contains ''tab-button'' e2 \<or> classList_contains ''tab-panel'' e2) \<and>
            classList_contains ''active'' e2)"
  by (auto simp: e1_def e2_def classList_contains_def classList_remove_def)

text \<open>
  What \<open>switchTab\<close> does with a name that has no button or no panel (the name holding no
  quote, backslash or line break): it returns, the guard keeps the current tab of the
  controller and the fragment of the URL as they were, and the marks that were removed
  before the guard are not put back, so that no tab button and no tab panel is marked.
\<close>

lemma switchTab_unknown_effect:
  assumes plain: "css_string_plain tabName"
    and nopair: "querySelector_data_tab b tabName (doc p) = Inr None \<or>
                 getElementById tabName (doc p) = None"
  shows "\<exists>p'. switchTab b tabName p = Done p' \<and>
           currentTab p' = currentTab p \<and>
           fragment p' = fragment p \<and>
           active_elements p' = []"
proof -
  let ?d1 = "forEach_matching (classList_contains ''tab-button'') (classList_remove ''active'') (doc p)"
  let ?d2 = "forEach_matching (classList_contains ''tab-panel'') (classList_remove ''active'') ?d1"
  let ?p2 = "p\<lparr>doc := ?d2\<rparr>"
  have q2: "querySelector_data_tab b tabName ?d2 = querySelector_data_tab b tabName (doc p)"
    using plain by (simp add: querySelector_data_tab_def first_index_forEach classList_remove_def)
  have g2: "getElementById tabName ?d2 = getElementById tabName (doc p)"
    by (simp add: getElementById_forEach classList_remove_def)
  have run: "switchTab b tabName p = Done ?p2"
  proof (cases "querySelector_data_tab b tabName (doc p) = Inr None")
    case True
    then show ?thesis using q2 by (simp add: switchTab_def Let_def)
  next
    case False
    with nopair have none: "getElementById tabName (doc p) = None" by simp
    from plain obtain r where "querySelector_data_tab b tabName (doc p) = Inr r"
      by (simp add: querySelector_data_tab_def)
    then show ?thesis using q2 g2 none
      by (simp add: switchTab_def Let_def split: option.splits)
  qed
  have "active_elements ?p2 = []"
    using cleared_no_active
    by (simp add: active_elements_def forEach_matching_def filter_empty_conv)
  with run show ?thesis by simp
qed

text \<open>
  Claim C1 (the code does not do what the claim says). On the loaded sample page the
  button and the panel of \<open>general\<close> are marked \<open>active\<close> and no element has \<open>data-tab\<close> or
  id \<open>unknown\<close>. \<open>switchTab('unknown')\<close> returns without an error and leaves the current
  tab and the fragment at \<open>general\<close>, as the guard intends; but the marks were removed
  before the guard, so no tab button and no tab panel is marked any more, while the
  controller still names \<open>general\<close> as its current tab. The paths that test the name
  first keep the selection: a change of the fragment to \<open>unknown\<close> leaves both marks.
\<close>

theorem switchTab_unknown_clears_selection:
  "querySelector_data_tab sample_browser ''unknown'' (doc loaded_page) = Inr None \<and>
   getElementById ''unknown'' (doc loaded_page) = None \<and>
   active_elements loaded_page = [7, 9] \<and>
   currentTab loaded_page = ''general'' \<and>
   thrown_error (switchTab sample_browser ''unknown'' loaded_page) = None \<and>
   active_elements (result_page (switchTab sample_browser ''unknown'' loaded_page)) = [] \<and>
   currentTab (result_page (switchTab sample_browser ''unknown'' loaded_page)) = ''general'' \<and>
   fragment (result_page (switchTab sample_browser ''unknown'' loaded_page)) = ''general'' \<and>
   thrown_error (on_hashchange sample_browser (loaded_page\<lparr>fragment := ''unknown''\<rparr>)) = None \<and>
   active_elements (result_page (on_hashchange sample_browser (loaded_page\<lparr>fragment := ''unknown''\<rparr>))) =
     [7, 9]"
  unfolding loaded_page_def by code_simp

section \<open>FAQ accordion: one toggle and two\<close>

lemma show_nat_not_empty: "show_nat n \<noteq> []"
  by (subst show_nat.simps) simp

text \<open>
  One toggle of an element of the document: the item changes between marked and not
  marked, its heading and answer stay the elements they were, the \<open>aria-expanded\<close> of the
  heading says whether the item is now marked, and the height of the answer is its
  \<open>scrollHeight\<close> in pixels when the item is now marked and \<open>0\<close> when it is not.
\<close>

lemma toggleFAQItem_effect:
  assumes il: "item < length (doc p)"
  shows "\<exists>p1. toggleFAQItem item p = Done p1 \<and>
           length (doc p1) = length (doc p) \<and>
           classList_contains ''active'' (doc p1 ! item) = (\<not> classList_contains ''active'' (doc p ! item)) \<and>
           element_querySelector is_h4 item (doc p1) = element_querySelector is_h4 item (doc p) \<and>
           element_querySelector (classList_contains ''faq-answer'') item (doc p1) =
             element_querySelector (classList_contains ''faq-answer'') item (doc p) \<and>
           (\<forall>q. element_querySelector is_h4 item (doc p) = Some q \<longrightarrow>
                attrs (doc p1 ! q) ''aria-expanded'' =
                  Some (if classList_contains ''active'' (doc p1 ! item) then ''true'' else ''false'')) \<and>
           (\<forall>a. element_querySelector (classList_contains ''faq-answer'') item (doc p) = Some a \<longrightarrow>
                style (doc p1 ! a) ''maxHeight'' =
                  Some (if classList_contains ''active'' (doc p1 ! item)
                        then show_nat (scrollHeight (doc p ! a)) @ ''px'' else ''0''))"
proof -
  define d where "d = doc p"
  define act where "act = classList_contains ''active'' (d ! item)"
  define question where "question = element_querySelector is_h4 item d"
  define answer where "answer = element_querySelector (classList_contains ''faq-answer'') item d"
  define fi where "fi = (if act then classList_remove ''active'' else classList_add ''active'')"
  define fq where "fq = setAttribute ''aria-expanded'' (if act then ''false'' else ''true'')"
  define d1 where "d1 = update_at item fi d"
  define d2 where "d2 = (case question of None \<Rightarrow> d1 | Some q \<Rightarrow> update_at q fq d1)"
  define h where "h = (if act then ''0'' else show_nat (scrollHeight (d2 ! the answer)) @ ''px'')"
  define d3 where "d3 = (case answer of None \<Rightarrow> d2 | Some a \<Rightarrow> update_at a (set_style ''maxHeight'' h) d2)"
  have run: "toggleFAQItem item p = Done (p\<lparr>doc := d3\<rparr>)"
    using il
    by (cases question; cases answer)
       (simp_all add: toggleFAQItem_def Let_def d_def [symmetric] act_def [symmetric]
          question_def [symmetric] answer_def [symmetric] d3_def d2_def d1_def fi_def fq_def h_def)
  have fi_depth: "\<And>e. depth (fi e) = depth e"
    by (simp add: fi_def classList_remove_def classList_add_def)
  have fq_keeps: "\<And>e. depth (fq e) = depth e" "\<And>e. tag (fq e) = tag e"
    "\<And>e. classes (fq e) = classes e" "\<And>e. scrollHeight (fq e) = scrollHeight e"
    by (simp_all add: fq_def setAttribute_def)
  have fs_keeps: "\<And>e. depth (set_style ''maxHeight'' h e) = depth e"
    "\<And>e. tag (set_style ''maxHeight'' h e) = tag e"
    "\<And>e. classes (set_style ''maxHeight'' h e) = classes e"
    "\<And>e. attrs (set_style ''maxHeight'' h e) = attrs e"
    by (simp_all add: set_style_def)
  have len: "length d1 = length d" "length d2 = length d" "length d3 = length d"
    by (simp_all add: d1_def d2_def d3_def split: option.splits)
  have sel1: "element_querySelector P item d1 = element_querySelector P item d" for P
    unfolding d1_def by (rule element_querySelector_update_at) (simp_all add: fi_depth)
  have sel2: "element_querySelector P item d2 = element_querySelector P item d"
    if "\<And>e. P (fq e) = P e" for P
    unfolding d2_def using that sel1
    by (cases question) (simp_all add: element_querySelector_update_at fq_keeps)
  have sel3: "element_querySelector P item d3 = element_querySelector P item d"
    if "\<And>e. P (fq e) = P e" "\<And>e. P (set_style ''maxHeight'' h e) = P e" for P
    unfolding d3_def using that sel2 [of P]
    by (cases answer) (simp_all add: element_querySelector_update_at fs_keeps)
  have h4: "element_querySelector is_h4 item d3 = element_querySelector is_h4 item d"
    by (rule sel3) (simp_all add: is_h4_def fq_keeps fs_keeps)
  have ans: "element_querySelector (classList_contains ''faq-answer'') item d3 =
             element_querySelector (classList_contains ''faq-answer'') item d"
    by (rule sel3) (simp_all add: classList_contains_def fq_keeps fs_keeps)
  have c2: "classes (d2 ! j) = classes (d1 ! j)" for j
    unfolding d2_def by (cases question) (simp_all add: nth_update_at_keeps fq_keeps)
  have c3: "classes (d3 ! j) = classes (d2 ! j)" for j
    unfolding d3_def by (cases answer) (simp_all add: nth_update_at_keeps fs_keeps)
  have "classes (d3 ! item) = classes (fi (d ! item))"
    using il by (simp add: c3 c2 d1_def d_def nth_update_at_same)
  then have flip: "classList_contains ''active'' (d3 ! item) = (\<not> act)"
    by (auto simp: classList_contains_def act_def fi_def classList_remove_def classList_add_def)
  have aria: "attrs (d3 ! q) ''aria-expanded'' = Some (if act then ''false'' else ''true'')"
    if q: "question = Some q" for q
  proof -
    from q have "q < length d"
      unfolding question_def by (blast dest: element_querySelector_Some)
    then have "attrs (d2 ! q) ''aria-expanded'' = Some (if act then ''false'' else ''true'')"
      using q by (simp add: d2_def nth_update_at_same len fq_def setAttribute_def)
    moreover have "attrs (d3 ! q) = attrs (d2 ! q)"
      unfolding d3_def by (cases answer) (simp_all add: nth_update_at_keeps fs_keeps)
    ultimately show ?thesis by simp
  qed
  have sh2: "scrollHeight (d2 ! j) = scrollHeight (d ! j)" for j
  proof -
    have "scrollHeight (d2 ! j) = scrollHeight (d1 ! j)"
      unfolding d2_def by (cases question) (simp_all add: nth_update_at_keeps fq_keeps)
    also have "\<dots> = scrollHeight (d ! j)"
      unfolding d1_def
      by (rule nth_update_at_keeps) (simp add: fi_def classList_remove_def classList_add_def)
    finally show ?thesis .
  qed
  have height: "style (d3 ! a) ''maxHeight'' =
                  Some (if act then ''0'' else show_nat (scrollHeight (d ! a)) @ ''px'')"
    if a: "answer = Some a" for a
  proof -
    from a have "a < length d"
      unfolding answer_def by (blast dest: element_querySelector_Some)
    then have "style (d3 ! a) ''maxHeight'' = (if h = [] then None else Some h)"
      using a by (simp add: d3_def nth_update_at_same len set_style_def)
    moreover have "h = (if act then ''0'' else show_nat (scrollHeight (d ! a)) @ ''px'')"
      using a by (simp add: h_def sh2)
    ultimately show ?thesis by (simp add: show_nat_not_empty)
  qed
  show ?thesis
    using run len(3) flip h4 ans aria height
    by (simp add: d_def [symmetric] act_def [symmetric] question_def [symmetric] answer_def [symmetric])
qed

text \<open>
  Claim C8, as amended. For every FAQ item of the document, each of two toggles in a row
  returns and leaves the \<open>aria-expanded\<close> of the heading (when the item has one) saying
  whether the item is marked \<open>active\<close>. When the item is not marked at the start (it is
  collapsed), it is marked after the first toggle and not marked after the second, and
  the second leaves \<open>aria-expanded\<close> at \<open>false\<close> and the \<open>max-height\<close> of the answer (when
  the item has one) at \<open>0\<close>.
\<close>

theorem toggleFAQItem_twice:
  assumes il: "item < length (doc p)"
  shows "\<exists>p1 p2. toggleFAQItem item p = Done p1 \<and> toggleFAQItem item p1 = Done p2 \<and>
           (\<forall>q. element_querySelector is_h4 item (doc p) = Some q \<longrightarrow>
                attrs (doc p1 ! q) ''aria-expanded'' =
                  Some (if classList_contains ''active'' (doc p1 ! item) then ''true'' else ''false'') \<and>
                attrs (doc p2 ! q) ''aria-expanded'' =
                  Some (if classList_contains ''active'' (doc p2 ! item) then ''true'' else ''false'')) \<and>
           (\<not> classList_contains ''active'' (doc p ! item) \<longrightarrow>
              classList_contains ''active'' (doc p1 ! item) \<and>
              \<not> classList_contains ''active'' (doc p2 ! item) \<and>
              (\<forall>q. element_querySelector is_h4 item (doc p) = Some q \<longrightarrow>
                   attrs (doc p2 ! q) ''aria-expanded'' = Some ''false'') \<and>
              (\<forall>a. element_querySelector (classList_contains ''faq-answer'') item (doc p) = Some a \<longrightarrow>
                   style (doc p1 ! a) ''maxHeight'' = Some (show_nat (scrollHeight (doc p ! a)) @ ''px'') \<and>
                   style (doc p2 ! a) ''maxHeight'' = Some ''0''))"
proof -
  from toggleFAQItem_effect [OF il] obtain p1 where
    r1: "toggleFAQItem item p = Done p1"
    and l1: "length (doc p1) = length (doc p)"
    and a1: "classList_contains ''active'' (doc p1 ! item) = (\<not> classList_contains ''active'' (doc p ! item))"
    and q1: "element_querySelector is_h4 item (doc p1) = element_querySelector is_h4 item (doc p)"
    and n1: "element_querySelector (classList_contains ''faq-answer'') item (doc p1) =
               element_querySelector (classList_contains ''faq-answer'') item (doc p)"
    and x1: "\<forall>q. element_querySelector is_h4 item (doc p) = Some q \<longrightarrow>
                attrs (doc p1 ! q) ''aria-expanded'' =
                  Some (if classList_contains ''active'' (doc p1 ! item) then ''true'' else ''false'')"
    and h1: "\<forall>a. element_querySelector (classList_contains ''faq-answer'') item (doc p) = Some a \<longrightarrow>
                style (doc p1 ! a) ''maxHeight'' =
                  Some (if classList_contains ''active'' (doc p1 ! item)
                        then show_nat (scrollHeight (doc p ! a)) @ ''px'' else ''0'')"
    by blast
  from il l1 have il1: "item < length (doc p1)" by simp
  from toggleFAQItem_effect [OF il1] obtain p2 where
    r2: "toggleFAQItem item p1 = Done p2"
    and a2: "classList_contains ''active'' (doc p2 ! item) = (\<not> classList_contains ''active'' (doc p1 ! item))"
    and x2: "\<forall>q. element_querySelector is_h4 item (doc p1) = Some q \<longrightarrow>
                attrs (doc p2 ! q) ''aria-expanded'' =
                  Some (if classList_contains ''active'' (doc p2 ! item) then ''true'' else ''false'')"
    and h2: "\<forall>a. element_querySelector (classList_contains ''faq-answer'') item (doc p1) = Some a \<longrightarrow>
                style (doc p2 ! a) ''maxHeight'' =
                  Some (if classList_contains ''active'' (doc p2 ! item)
                        then show_nat (scrollHeight (doc p1 ! a)) @ ''px'' else ''0'')"
    by blast
  show ?thesis
    using r1 r2 a1 a2 x1 x2 h1 h2 q1 n1 by simp
qed

theorem toggleFAQItem_twice_witness:
  "11 < length (doc loaded_page) \<and>
   classList_contains ''faq-item'' (doc loaded_page ! 11) \<and>
   \<not> classList_contains ''active'' (doc loaded_page ! 11) \<and>
   element_querySelector is_h4 11 (doc loaded_page) = Some 12 \<and>
   element_querySelector (classList_contains ''faq-answer'') 11 (doc loaded_page) = Some 13 \<and>
   (\<exists>p1 p2. toggleFAQItem 11 loaded_page = Done p1 \<and> toggleFAQItem 11 p1 = Done p2 \<and>
      attrs (doc p1 ! 12) ''aria-expanded'' = Some ''true'' \<and>
      style (doc p1 ! 13) ''maxHeight'' = Some ''120px'' \<and>
      attrs (doc p2 ! 12) ''aria-expanded'' = Some ''false'' \<and>
      style (doc p2 ! 13) ''maxHeight'' = Some ''0'')"
proof -
  have il: "11 < length (doc loaded_page)"
    unfolding loaded_page_def by code_simp
  have item: "classList_contains ''faq-item'' (doc loaded_page ! 11)"
    unfolding loaded_page_def by code_simp
  have collapsed: "\<not> classList_contains ''active'' (doc loaded_page ! 11)"
    unfolding loaded_page_def by code_simp
  have q: "element_querySelector is_h4 11 (doc loaded_page) = Some 12"
    unfolding loaded_page_def by code_simp
  have a: "element_querySelector (classList_contains ''faq-answer'') 11 (doc loaded_page) = Some 13"
    unfolding loaded_page_def by code_simp
  have "scrollHeight (doc loaded_page ! 13) = 120"
    unfolding loaded_page_def by code_simp
  moreover have "show_nat 120 = ''120''" by code_simp
  ultimately have px: "show_nat (scrollHeight (doc loaded_page ! 13)) @ ''px'' = ''120px''" by simp
  show ?thesis
    using toggleFAQItem_twice [OF il] il item collapsed q a px by auto
qed

text \<open>
  The claim as stated fails for an item that is expanded: after one toggle of the item
  of the loaded sample page it is marked \<open>active\<close>, and two more toggles leave
  \<open>aria-expanded\<close> at \<open>true\<close> and the \<open>max-height\<close> at the height of the content.
\<close>

theorem toggleFAQItem_twice_from_expanded:
  "classList_contains ''faq-item'' (doc (faq_toggled 11 loaded_page) ! 11) \<and>
   classList_contains ''active'' (doc (faq_toggled 11 loaded_page) ! 11) \<and>
   element_querySelector is_h4 11 (doc (faq_toggled 11 loaded_page)) = Some 12 \<and>
   element_querySelector (classList_contains ''faq-answer'') 11 (doc (faq_toggled 11 loaded_page)) = Some 13 \<and>
   attrs (doc (faq_toggled 11 (faq_toggled 11 (faq_toggled 11 loaded_page))) ! 12) ''aria-expanded'' =
     Some ''true'' \<and>
   style (doc (faq_toggled 11 (faq_toggled 11 (faq_toggled 11 loaded_page))) ! 13) ''maxHeight'' =
     Some ''120px''"
  unfolding faq_toggled_def loaded_page_def by code_simp

section \<open>Device detection: mobile and tablet\<close>

text \<open>
  Claim C9. Where \<open>window.matchMedia\<close> exists (without it \<open>detectDevice\<close> throws before
  it has a snapshot), \<open>detectDevice\<close> returns and changes nothing but the snapshot. The
  snapshot says mobile exactly when the mobile pattern matches the lower-cased user agent
  and neither the width nor the height of the viewport is above 768. It says tablet
  exactly when the tablet pattern matches or the mobile pattern matches and the width or
  the height is above 768. So a user agent classified as mobile is reclassified when a
  dimension is above 768, the snapshot then says tablet and no longer mobile, and at 768
  and below it is left mobile.
\<close>

theorem detectDevice_reclassifies_mobile:
  assumes mm: "has_matchMedia b"
  shows "\<exists>info. detectDevice b p = Done (p\<lparr>deviceInfo := Some info\<rparr>) \<and>
           isMobile info =
             (mobile_pattern (toLowerCase b (userAgent b)) \<and>
              \<not> (innerWidth b > 768 \<or> innerHeight b > 768)) \<and>
           isTablet info =
             (tablet_pattern (toLowerCase b (userAgent b)) \<or>
              mobile_pattern (toLowerCase b (userAgent b)) \<and>
              (innerWidth b > 768 \<or> innerHeight b > 768)) \<and>
           (mobile_pattern (toLowerCase b (userAgent b)) \<and>
            (innerWidth b > 768 \<or> innerHeight b > 768) \<longrightarrow>
              isTablet info \<and> \<not> isMobile info)"
  using mm by (auto simp: detectDevice_def Let_def)

theorem detectDevice_reclassifies_mobile_witness:
  "has_matchMedia sample_browser \<and>
   mobile_pattern (toLowerCase sample_browser (userAgent sample_browser)) \<and>
   \<not> tablet_pattern (toLowerCase sample_browser (userAgent sample_browser)) \<and>
   innerWidth sample_browser = 412 \<and> innerHeight sample_browser = 915 \<and>
   (\<exists>info. detectDevice sample_browser loaded_page = Done (loaded_page\<lparr>deviceInfo := Some info\<rparr>) \<and>
      isTablet info \<and> \<not> isMobile info) \<and>
   innerWidth phone_768 = 412 \<and> innerHeight phone_768 = 768 \<and>
   (\<exists>info. detectDevice phone_768 loaded_page = Done (loaded_page\<lparr>deviceInfo := Some info\<rparr>) \<and>
      isMobile info \<and> \<not> isTablet info) \<and>
   mobile_pattern (toLowerCase kelvin_phone (userAgent kelvin_phone)) \<and>
   (\<exists>info. detectDevice kelvin_phone loaded_page = Done (loaded_page\<lparr>deviceInfo := Some info\<rparr>) \<and>
      isMobile info \<and> \<not> isTablet info)"
proof -
  have mm: "has_matchMedia sample_browser" "has_matchMedia phone_768" "has_matchMedia kelvin_phone"
    by code_simp+
  have mobile: "mobile_pattern (toLowerCase sample_browser (userAgent sample_browser))"
    "mobile_pattern (toLowerCase phone_768 (userAgent phone_768))"
    "mobile_pattern (toLowerCase kelvin_phone (userAgent kelvin_phone))"
    by code_simp+
  have tablet: "\<not> tablet_pattern (toLowerCase sample_browser (userAgent sample_browser))"
    "\<not> tablet_pattern (toLowerCase phone_768 (userAgent phone_768))"
    "\<not> tablet_pattern (toLowerCase kelvin_phone (userAgent kelvin_phone))"
    by code_simp+
  have size: "innerWidth sample_browser = 412" "innerHeight sample_browser = 915"
    "innerWidth phone_768 = 412" "innerHeight phone_768 = 768"
    "innerWidth kelvin_phone = 320" "innerHeight kelvin_phone = 480"
    by code_simp+
  let ?shape = "\<lambda>b info.
      detectDevice b loaded_page = Done (loaded_page\<lparr>deviceInfo := Some info\<rparr>) \<and>
      isMobile info =
        (mobile_pattern (toLowerCase b (userAgent b)) \<and>
         \<not> (innerWidth b > 768 \<or> innerHeight b > 768)) \<and>
      isTablet info =
        (tablet_pattern (toLowerCase b (userAgent b)) \<or>
         mobile_pattern (toLowerCase b (userAgent b)) \<and>
         (innerWidth b > 768 \<or> innerHeight b > 768)) \<and>
      (mobile_pattern (toLowerCase b (userAgent b)) \<and>
       (innerWidth b > 768 \<or> innerHeight b > 768) \<longrightarrow>
         isTablet info \<and> \<not> isMobile info)"
  from detectDevice_reclassifies_mobile [OF mm(1), of loaded_page]
  obtain i1 where h1: "?shape sample_browser i1" ..
  from detectDevice_reclassifies_mobile [OF mm(2), of loaded_page]
  obtain i2 where h2: "?shape phone_768 i2" ..
  from detectDevice_reclassifies_mobile [OF mm(3), of loaded_page]
  obtain i3 where h3: "?shape kelvin_phone i3" ..
  from h1 have e1: "\<exists>info. detectDevice sample_browser loaded_page = Done (loaded_page\<lparr>deviceInfo := Some info\<rparr>) \<and>
                     isTablet info \<and> \<not> isMobile info"
    by (intro exI [of _ i1]) (simp add: mobile(1) tablet(1) size)
  from h2 have e2: "\<exists>info. detectDevice phone_768 loaded_page = Done (loaded_page\<lparr>deviceInfo := Some info\<rparr>) \<and>
                     isMobile info \<and> \<not> isTablet info"
    by (intro exI [of _ i2]) (simp add: mobile(2) tablet(2) size)
  from h3 have e3: "\<exists>info. detectDevice kelvin_phone loaded_page = Done (loaded_page\<lparr>deviceInfo := Some info\<rparr>) \<and>
                     isMobile info \<and> \<not> isTablet info"
    by (intro exI [of _ i3]) (simp add: mobile(3) tablet(3) size)
  from mm(1) mobile(1) mobile(3) tablet(1) size(1-4) e1 e2 e3 show ?thesis
    by (intro conjI)
qed

section \<open>Clipboard\<close>

text \<open>
  The text area that the fallback appends to the body is its last child and has no
  children, so removing it gives the document back as it was.
\<close>

lemma descendants_take_drop:
  "drop (Suc i + length (descendants i d)) d =
     dropWhile (\<lambda>x. depth (d ! i) < depth x) (drop (Suc i) d)"
proof -
  let ?Q = "\<lambda>x. depth (d ! i) < depth x"
  let ?xs = "drop (Suc i) d"
  have "drop (length (takeWhile ?Q ?xs)) ?xs = dropWhile ?Q ?xs"
    by (rule dropWhile_eq_drop [symmetric])
  then show ?thesis
    by (simp add: descendants_def add.commute)
qed

lemma remove_appended:
  assumes il: "i < length d"
  shows "remove_element (Suc i + length (descendants i d)) (appendChild i e d) = d"
proof -
  define k where "k = Suc i + length (descendants i d)"
  define e' where "e' = e\<lparr>depth := Suc (depth (d ! i))\<rparr>"
  define new where "new = take k d @ [e'] @ drop k d"
  have "length (descendants i d) \<le> length (drop (Suc i) d)"
    unfolding descendants_def by (rule length_takeWhile_le)
  with il have kl: "k \<le> length d" by (simp add: k_def)
  then have lt: "length (take k d) = k" by simp
  have new_k: "new ! k = e'"
    unfolding new_def using lt by (simp add: nth_append)
  have after: "drop (Suc k) new = drop k d"
    unfolding new_def using lt by simp
  have rest: "drop k d = dropWhile (\<lambda>x. depth (d ! i) < depth x) (drop (Suc i) d)"
    unfolding k_def by (rule descendants_take_drop)
  have none: "takeWhile (\<lambda>x. depth e' < depth x) (drop k d) = []"
  proof (cases "drop k d")
    case Nil
    then show ?thesis by simp
  next
    case (Cons x xs)
    with rest have "dropWhile (\<lambda>x. depth (d ! i) < depth x) (drop (Suc i) d) = x # xs" by simp
    then have "\<not> depth (d ! i) < depth x" by (rule dropWhile_eq_Cons_conv [THEN iffD1, THEN conjunct2])
    then show ?thesis using Cons by (simp add: e'_def)
  qed
  have "descendants k new = []"
    by (simp add: descendants_def new_k after none)
  then have "remove_element k new = take k new @ drop (Suc k) new"
    by (simp add: remove_element_def)
  also have "take k new = take k d"
    unfolding new_def using lt by simp
  finally have "remove_element k new = d"
    by (simp add: after)
  then show ?thesis
    by (simp add: appendChild_def Let_def k_def new_def e'_def)
qed

text \<open>
  Claim C6. \<open>copyToClipboard\<close> always returns a boolean and never throws. Where the
  clipboard API is there and the context is secure, it returns \<open>true\<close> when the write
  succeeds, and \<open>false\<close>, with the error written to the console, when the write is
  rejected. Elsewhere the fallback runs: without a body in the document it returns
  \<open>false\<close> and logs the TypeError; when \<open>execCommand('copy')\<close> returns, it returns that
  value, logs nothing and leaves the page as it was; when \<open>execCommand\<close> throws, it
  returns \<open>false\<close> and logs the error, and the text area stays in the document.
\<close>

theorem copyToClipboard_result:
  "(\<exists>r p'. copyToClipboard b text p = Returned r p') \<and>
   (navigator_clipboard b \<and> isSecureContext b \<longrightarrow>
      (writeText b text = None \<longrightarrow> copyToClipboard b text p = Returned True p) \<and>
      (\<forall>e. writeText b text = Some e \<longrightarrow>
         copyToClipboard b text p =
           Returned False (p\<lparr>console_errors := console_errors p @ [e]\<rparr>))) \<and>
   (\<not> (navigator_clipboard b \<and> isSecureContext b) \<longrightarrow>
      (document_body (doc p) = None \<longrightarrow>
         copyToClipboard b text p =
           Returned False (p\<lparr>console_errors := console_errors p @ [TypeError]\<rparr>)) \<and>
      (\<forall>success. document_body (doc p) \<noteq> None \<and> execCommand_copy b = Inr success \<longrightarrow>
         copyToClipboard b text p = Returned success p) \<and>
      (\<forall>e. document_body (doc p) \<noteq> None \<and> execCommand_copy b = Inl e \<longrightarrow>
         (\<exists>p'. copyToClipboard b text p = Returned False p' \<and>
               console_errors p' = console_errors p @ [e] \<and>
               length (doc p') = Suc (length (doc p)))))"
proof (intro conjI impI allI)
  show "\<exists>r p'. copyToClipboard b text p = Returned r p'"
    by (cases "copy_attempt b text p") (auto simp: copyToClipboard_def)
next
  assume "navigator_clipboard b \<and> isSecureContext b" and "writeText b text = None"
  then show "copyToClipboard b text p = Returned True p"
    by (simp add: copyToClipboard_def copy_attempt_def)
next
  fix e
  assume "navigator_clipboard b \<and> isSecureContext b" and "writeText b text = Some e"
  then show "copyToClipboard b text p =
               Returned False (p\<lparr>console_errors := console_errors p @ [e]\<rparr>)"
    by (simp add: copyToClipboard_def copy_attempt_def)
next
  assume "\<not> (navigator_clipboard b \<and> isSecureContext b)" and "document_body (doc p) = None"
  then show "copyToClipboard b text p =
               Returned False (p\<lparr>console_errors := console_errors p @ [TypeError]\<rparr>)"
    by (auto simp: copyToClipboard_def copy_attempt_def Let_def)
next
  fix success
  assume np: "\<not> (navigator_clipboard b \<and> isSecureContext b)"
    and ok: "document_body (doc p) \<noteq> None \<and> execCommand_copy b = Inr success"
  then obtain body where body: "document_body (doc p) = Some body" by auto
  then have "body < length (doc p)" by (rule document_body_Some)
  from remove_appended [OF this] np ok body
  show "copyToClipboard b text p = Returned success p"
    by (auto simp: copyToClipboard_def copy_attempt_def Let_def)
next
  fix e
  assume np: "\<not> (navigator_clipboard b \<and> isSecureContext b)"
    and bad: "document_body (doc p) \<noteq> None \<and> execCommand_copy b = Inl e"
  then obtain body where body: "document_body (doc p) = Some body" by auto
  have "length (appendChild body x (doc p)) = Suc (length (doc p))" for x
    by (simp add: appendChild_def Let_def)
  with np bad body
  show "\<exists>p'. copyToClipboard b text p = Returned False p' \<and>
             console_errors p' = console_errors p @ [e] \<and>
             length (doc p') = Suc (length (doc p))"
    by (auto simp: copyToClipboard_def copy_attempt_def Let_def)
qed

theorem copyToClipboard_result_witness:
  "copyToClipboard sample_browser ''hello'' loaded_page = Returned True loaded_page \<and>
   copyToClipboard browser_refusing_clipboard ''hello'' loaded_page =
     Returned False
       (loaded_page\<lparr>console_errors := console_errors loaded_page @ [DOMException ''NotAllowedError'']\<rparr>) \<and>
   copyToClipboard browser_without_clipboard ''hello'' page_without_body =
     Returned False
       (page_without_body\<lparr>console_errors := console_errors page_without_body @ [TypeError]\<rparr>) \<and>
   copyToClipboard browser_without_clipboard ''hello'' loaded_page = Returned False loaded_page \<and>
   (\<exists>p'. copyToClipboard browser_failing_copy ''hello'' loaded_page = Returned False p' \<and>
      console_errors p' = console_errors loaded_page @ [DOMException ''NotAllowedError''] \<and>
      length (doc p') = Suc (length (doc loaded_page)))"
proof -
  have primary: "navigator_clipboard sample_browser \<and> isSecureContext sample_browser"
    "writeText sample_browser ''hello'' = None"
    by (simp_all add: sample_browser_def)
  have refusing: "navigator_clipboard browser_refusing_clipboard \<and> isSecureContext browser_refusing_clipboard"
    "writeText browser_refusing_clipboard ''hello'' = Some (DOMException ''NotAllowedError'')"
    by (simp_all add: browser_refusing_clipboard_def sample_browser_def)
  have without: "\<not> (navigator_clipboard browser_without_clipboard \<and> isSecureContext browser_without_clipboard)"
    "execCommand_copy browser_without_clipboard = Inr False"
    by (simp_all add: browser_without_clipboard_def sample_browser_def)
  have failing: "\<not> (navigator_clipboard browser_failing_copy \<and> isSecureContext browser_failing_copy)"
    "execCommand_copy browser_failing_copy = Inl (DOMException ''NotAllowedError'')"
    by (simp_all add: browser_failing_copy_def sample_browser_def)
  have nobody: "document_body (doc page_without_body) = None"
    by code_simp
  have body: "document_body (doc loaded_page) \<noteq> None"
    unfolding loaded_page_def by code_simp
  have c1: "copyToClipboard sample_browser ''hello'' loaded_page = Returned True loaded_page"
    using copyToClipboard_result [of sample_browser "''hello''" loaded_page] primary by simp
  have c2: "copyToClipboard browser_refusing_clipboard ''hello'' loaded_page =
              Returned False
                (loaded_page\<lparr>console_errors := console_errors loaded_page @ [DOMException ''NotAllowedError'']\<rparr>)"
    using copyToClipboard_result [of browser_refusing_clipboard "''hello''" loaded_page] refusing by simp
  have c3: "copyToClipboard browser_without_clipboard ''hello'' page_without_body =
              Returned False
                (page_without_body\<lparr>console_errors := console_errors page_without_body @ [TypeError]\<rparr>)"
    using copyToClipboard_result [of browser_without_clipboard "''hello''" page_without_body]
          without nobody by simp
  have c4: "copyToClipboard browser_without_clipboard ''hello'' loaded_page = Returned False loaded_page"
    using copyToClipboard_result [of browser_without_clipboard "''hello''" loaded_page]
          without body by auto
  have c5: "\<exists>p'. copyToClipboard browser_failing_copy ''hello'' loaded_page = Returned False p' \<and>
              console_errors p' = console_errors loaded_page @ [DOMException ''NotAllowedError''] \<and>
              length (doc p') = Suc (length (doc loaded_page))"
    using copyToClipboard_result [of browser_failing_copy "''hello''" loaded_page]
          failing body by auto
  from c1 c2 c3 c4 c5 show ?thesis by (intro conjI)
qed

section \<open>Injected style sheets\<close>

lemma filter_insert_at:
  "length (filter P (take k d @ [x] @ drop k d)) = length (filter P d) + (if P x then 1 else 0)"
proof -
  have "length (filter P (take k d @ drop k d)) = length (filter P d)" by simp
  then show ?thesis by (simp del: append_take_drop_id)
qed

lemma filter_appendChild:
  "length (filter P (appendChild i e d)) =
     length (filter P d) + (if P (e\<lparr>depth := Suc (depth (d ! i))\<rparr>) then 1 else 0)"
  unfolding appendChild_def Let_def by (rule filter_insert_at)

lemma first_index_None_filter:
  "first_index P xs = None \<Longrightarrow> filter P xs = []"
  by (induction xs) (auto split: if_splits)

lemma first_index_take:
  "first_index P xs = Some i \<Longrightarrow> filter P (take i xs) = []"
proof (induction xs arbitrary: i)
  case Nil
  then show ?case by simp
next
  case (Cons x xs)
  show ?case
  proof (cases "P x")
    case True
    with Cons.prems show ?thesis by simp
  next
    case False
    with Cons.prems obtain j where j: "first_index P xs = Some j" and i: "i = Suc j"
      by auto
    from Cons.IH [OF j] False i show ?thesis by simp
  qed
qed

lemma filter_remove_first:
  assumes first: "first_index P d = Some i"
    and one: "length (filter P d) \<le> 1"
  shows "filter P (remove_element i d) = []"
proof -
  from first have il: "i < length d" and pi: "P (d ! i)"
    using first_index_Some by blast+
  have split: "d = take i d @ d ! i # drop (Suc i) d"
    using il by (rule id_take_nth_drop)
  have "length (filter P d) = length (filter P (take i d)) + 1 + length (filter P (drop (Suc i) d))"
    by (subst split) (simp add: pi)
  with one have rest: "filter P (drop (Suc i) d) = []" by simp
  have "set (drop (Suc i + length (descendants i d)) d) \<subseteq> set (drop (Suc i) d)"
    by (metis add.commute drop_drop set_drop_subset)
  with rest have "filter P (drop (Suc i + length (descendants i d)) d) = []"
    by (auto simp: filter_empty_conv)
  then show ?thesis
    using first_index_take [OF first] by (simp add: remove_element_def)
qed

text \<open>
  The three sheets that are replaced. When the document holds at most one element with
  the id and the replacement returns (it throws only when the document is left without a
  head), the document holds exactly one afterwards.
\<close>

lemma replace_style_block_one:
  assumes one: "id_count name p \<le> 1"
    and ret: "replace_style_block name css p = Done p'"
  shows "id_count name p' = 1"
proof -
  define d1 where
    "d1 = (case querySelector_id name (doc p) of None \<Rightarrow> doc p
           | Some existing \<Rightarrow> remove_element existing (doc p))"
  have none: "filter (\<lambda>e. ident e = name) d1 = []"
  proof (cases "querySelector_id name (doc p)")
    case None
    then show ?thesis
      by (simp add: d1_def querySelector_id_def first_index_None_filter)
  next
    case (Some i)
    then have "first_index (\<lambda>e. ident e = name) (doc p) = Some i"
      by (simp add: querySelector_id_def)
    from filter_remove_first [OF this] one Some show ?thesis
      by (simp add: d1_def id_count_def)
  qed
  from ret obtain h where "document_head d1 = Some h"
    and p': "p' = p\<lparr>doc := appendChild h ((createElement ''style'')\<lparr>textContent := css, ident := name\<rparr>) d1\<rparr>"
    by (auto simp: replace_style_block_def Let_def d1_def [symmetric] split: option.splits)
  show ?thesis
    by (simp add: p' id_count_def filter_appendChild none)
qed

lemma optimizeTouchInteractions_one:
  assumes "id_count ''touch-optimization'' p \<le> 1" and "optimizeTouchInteractions p = Done p'"
  shows "id_count ''touch-optimization'' p' =
           (if dev hasTouch p then 1 else id_count ''touch-optimization'' p)"
  using assms replace_style_block_one [of "''touch-optimization''" p touch_css p']
  by (auto simp: optimizeTouchInteractions_def split: if_splits)

lemma optimizePerformance_one:
  assumes "id_count ''performance-optimization'' p \<le> 1" and "optimizePerformance b p = Done p'"
  shows "id_count ''performance-optimization'' p' \<le> 1"
  using assms replace_style_block_one [of "''performance-optimization''" p performance_css p']
  by (auto simp: optimizePerformance_def Let_def split: if_splits)

lemma adjustLayoutForScreen_one:
  assumes "id_count ''layout-optimization'' p \<le> 1" and "adjustLayoutForScreen p = Done p'"
  shows "id_count ''layout-optimization'' p' = 1"
proof -
  from assms(2) obtain css where "replace_style_block ''layout-optimization'' css p = Done p'"
    by (auto simp: adjustLayoutForScreen_def Let_def)
  with assms(1) show ?thesis by (rule replace_style_block_one)
qed

text \<open>
  The low-battery sheet. Every call made while the battery is low or not charging that
  returns leaves one more element with the id than there was.
\<close>

lemma optimizeForBattery_adds:
  assumes low: "level < 2 / 10 \<or> \<not> charging"
    and ret: "optimizeForBattery level charging p = Done p'"
  shows "id_count ''battery-optimization'' p' = Suc (id_count ''battery-optimization'' p)"
proof -
  from ret low obtain b h where b: "document_body (doc p) = Some b"
    and p': "p' = p\<lparr>doc := appendChild h
                ((createElement ''style'')\<lparr>textContent := battery_css, ident := ''battery-optimization''\<rparr>)
                (update_at b (classList_add ''low-battery'') (doc p))\<rparr>"
    by (auto simp: optimizeForBattery_def Let_def split: option.splits if_splits)
  have "map ident (update_at b (classList_add ''low-battery'') (doc p)) = map ident (doc p)"
    by (rule map_update_at) (simp add: classList_add_def)
  then have "filter (\<lambda>i. i = ''battery-optimization'') (map ident (update_at b (classList_add ''low-battery'') (doc p)))
       = filter (\<lambda>i. i = ''battery-optimization'') (map ident (doc p))" by simp
  then have "length (filter (\<lambda>e. ident e = ''battery-optimization'') (update_at b (classList_add ''low-battery'') (doc p)))
       = length (filter (\<lambda>e. ident e = ''battery-optimization'') (doc p))"
    by (simp add: filter_map o_def) (metis length_map)
  then show ?thesis
    by (simp add: p' id_count_def filter_appendChild)
qed

text \<open>
  Claim C3 (the code does not do what the claim says). The sheets of
  \<open>optimizeTouchInteractions\<close>, \<open>optimizePerformance\<close> and \<open>adjustLayoutForScreen\<close> are
  replaced: running \<open>optimizeInterface\<close> again on the loaded sample page leaves one sheet
  of each id in the head. The low-battery sheet is appended without a look for the one
  that is there: two battery events while the battery is low or not charging leave two
  sheets with the id \<open>battery-optimization\<close>, and the event that ends the condition
  removes one of them only.
\<close>

theorem battery_style_blocks_accumulate:
  "head_style_count ''touch-optimization'' loaded_page = 1 \<and>
   head_style_count ''layout-optimization'' loaded_page = 1 \<and>
   thrown_error (optimizeInterface sample_browser loaded_page) = None \<and>
   head_style_count ''touch-optimization'' (result_page (optimizeInterface sample_browser loaded_page)) = 1 \<and>
   head_style_count ''layout-optimization'' (result_page (optimizeInterface sample_browser loaded_page)) = 1 \<and>
   head_style_count ''battery-optimization'' loaded_page = 0 \<and>
   thrown_error (optimizeForBattery (1 / 10) False loaded_page) = None \<and>
   head_style_count ''battery-optimization'' low_battery_once = 1 \<and>
   thrown_error (optimizeForBattery (1 / 10) False low_battery_once) = None \<and>
   head_style_count ''battery-optimization'' low_battery_twice = 2 \<and>
   thrown_error (optimizeForBattery 1 True low_battery_twice) = None \<and>
   head_style_count ''battery-optimization'' (result_page (optimizeForBattery 1 True low_battery_twice)) = 1"
  unfolding low_battery_twice_def low_battery_once_def loaded_page_def by code_simp

end
